theory Spec2Isabelle
  imports Main
begin

section \<open>Data model\<close>

text \<open>
  The source record read from \<^verbatim>\<open>exercises.json\<close> (interface \<^verbatim>\<open>ExerciseData\<close>).
  The JSON is cast, not validated, and the transformation guards the five list
  attributes with \<^verbatim>\<open>|| []\<close>, so each of them may be missing: \<open>None\<close> stands for a
  missing (undefined or null) attribute. The identifier and the name are strings, as the
  interface declares them.
\<close>

record ExerciseData =
  exerciseId :: string
  name :: string
  gifUrl :: string
  targetMuscles :: "string list option"
  bodyParts :: "string list option"
  equipments :: "string list option"
  secondaryMuscles :: "string list option"
  instructions :: "string list option"

text \<open>The row written to the store (interface \<^verbatim>\<open>DatabaseExercise\<close>).\<close>

record DatabaseExercise =
  exercise_id :: string
  name :: string
  gif_path :: string
  target_muscles :: "string list"
  body_parts :: "string list"
  equipments :: "string list"
  secondary_muscles :: "string list"
  instructions :: "string list"
  is_active :: bool

section \<open>The remote store and the console\<close>

text \<open>
  Both scripts talk to one external collaborator, the remote table \<^verbatim>\<open>exercises\<close>, through
  the client's query builder. An awaited query either resolves to an object with the
  fields \<^verbatim>\<open>data\<close> and \<^verbatim>\<open>error\<close>, or rejects (throws).
\<close>

datatype 'a response = Response "'a option" "string option" | Thrown string

text \<open>
  What the environment does to one request: it serves it (\<open>NoFault\<close>), serves it but
  resolves with \<^verbatim>\<open>data = null\<close> (\<open>NullData\<close>), resolves with an error object carrying a
  message (\<open>ErrorResult\<close>), or rejects (\<open>Throw\<close>). A run is driven by a fault schedule,
  which gives the fault of the request with a given sequence number; the theorems hold
  for every schedule.
\<close>

datatype fault = NoFault | NullData | ErrorResult string | Throw string

fun respond :: "fault \<Rightarrow> 'a \<Rightarrow> 'a response" where
  "respond NoFault x = Response (Some x) None"
| "respond NullData x = Response None None"
| "respond (ErrorResult m) x = Response None (Some m)"
| "respond (Throw m) x = Thrown m"

fun performed :: "fault \<Rightarrow> bool" where
  "performed NoFault = True"
| "performed NullData = True"
| "performed (ErrorResult m) = False"
| "performed (Throw m) = False"

text \<open>The requests the two scripts issue, with their arguments.\<close>

datatype call =
    SelectCountCall
  | SelectIdsCall
  | InsertCall "DatabaseExercise list"
  | SearchCall string
  | UpdateCall nat
  | CountActiveCall

text \<open>Every console call of the two scripts, with the values it interpolates.\<close>

datatype message =
    MissingConfig
  | MissingConfigHint
  | ReadExercises nat
  | ReadFailed string
  | InsertStart nat nat
  | BatchFailed nat string
  | BatchDone nat nat
  | BatchUnexpected nat string
  | ExistingCheckFailed string
  | ExistingCheckUnexpected string
  | PopulationStart
  | TestingConnection
  | CannotConnect string
  | ConnectionOk
  | CheckingExisting
  | FoundExisting nat
  | Converting
  | NewToInsert nat
  | Skipped nat
  | AllAlreadyPresent
  | SummaryRule
  | SummaryHeader
  | SummaryInserted nat
  | SummaryFailed nat
  | SummaryAllInactive
  | SummaryGifPaths
  | NextSteps nat
  | CriticalError string
  | ActivatingStart
  | Searching string
  | SearchFailed string string
  | NoneFound string
  | ActivationFailed string string
  | Activated string string
  | Done nat
  | ReadyToTest

datatype stream = Stdout | Stderr

text \<open>
  The world a script runs in: the stored rows, each with the key the store gave it; the
  requests issued so far, each with the fault it met; and the lines written to the
  console.
\<close>

record world =
  rows :: "(nat \<times> DatabaseExercise) list"
  calls :: "(call \<times> fault) list"
  console :: "(stream \<times> message) list"

definition console_log :: "message \<Rightarrow> world \<Rightarrow> world" where
  "console_log m w = w\<lparr>console := console w @ [(Stdout, m)]\<rparr>"

definition console_error :: "message \<Rightarrow> world \<Rightarrow> world" where
  "console_error m w = w\<lparr>console := console w @ [(Stderr, m)]\<rparr>"

text \<open>Issuing a request: it meets the fault the schedule has for its sequence number.\<close>

definition request :: "(nat \<Rightarrow> fault) \<Rightarrow> call \<Rightarrow> world \<Rightarrow> fault \<times> world" where
  "request fs c w =
     (let f = fs (length (calls w)) in (f, w\<lparr>calls := calls w @ [(c, f)]\<rparr>))"

text \<open>\<^verbatim>\<open>from('exercises').select('count').limit(1)\<close>\<close>

definition select_count :: "(nat \<Rightarrow> fault) \<Rightarrow> world \<Rightarrow> nat list response \<times> world" where
  "select_count fs w =
     (case request fs SelectCountCall w of
        (f, w') \<Rightarrow> (respond f [length (rows w')], w'))"

text \<open>\<^verbatim>\<open>from('exercises').select('exercise_id')\<close>: the identifier of every stored row.\<close>

definition select_ids :: "(nat \<Rightarrow> fault) \<Rightarrow> world \<Rightarrow> string list response \<times> world" where
  "select_ids fs w =
     (case request fs SelectIdsCall w of
        (f, w') \<Rightarrow> (respond f (map (\<lambda>r. exercise_id (snd r)) (rows w')), w'))"

definition fresh_key :: "(nat \<times> DatabaseExercise) list \<Rightarrow> nat" where
  "fresh_key rs = Suc (fold max (map fst rs) 0)"

text \<open>
  \<^verbatim>\<open>from('exercises').insert(batch).select('exercise_id')\<close>: a served request appends the
  batch, a failed one leaves the table as it was. The table's constraints are not part of
  the scripts: an insert the store rejects, for a duplicate identifier say, is an
  \<open>ErrorResult\<close> of the schedule.
\<close>

definition insert_rows ::
  "(nat \<Rightarrow> fault) \<Rightarrow> DatabaseExercise list \<Rightarrow> world \<Rightarrow> string list response \<times> world" where
  "insert_rows fs batch w =
     (case request fs (InsertCall batch) w of
        (f, w') \<Rightarrow>
          (respond f (map exercise_id batch),
           if performed f
           then w'\<lparr>rows := rows w' @
                  zip [fresh_key (rows w') ..< fresh_key (rows w') + length batch] batch\<rparr>
           else w'))"

section \<open>The loader: transformation\<close>

text \<open>JavaScript's \<^verbatim>\<open>x || []\<close> on a list attribute: a missing value gives the empty list.\<close>

definition or_empty :: "string list option \<Rightarrow> string list" where
  "or_empty x = (case x of None \<Rightarrow> [] | Some v \<Rightarrow> v)"

definition mapExerciseToDatabase :: "ExerciseData \<Rightarrow> DatabaseExercise" where
  "mapExerciseToDatabase exercise =
     (let gifFileName = exerciseId exercise @ ''.gif'';
          gif_path = ''gifs/'' @ gifFileName
      in \<lparr> exercise_id = exerciseId exercise,
           name = ExerciseData.name exercise,
           gif_path = gif_path,
           target_muscles = or_empty (targetMuscles exercise),
           body_parts = or_empty (bodyParts exercise),
           equipments = or_empty (ExerciseData.equipments exercise),
           secondary_muscles = or_empty (secondaryMuscles exercise),
           instructions = or_empty (ExerciseData.instructions exercise),
           is_active = False \<rparr>)"

section \<open>The loader: reading, batching, the main flow\<close>

text \<open>An exception is a value: a function that may throw returns a \<open>result\<close>.\<close>

datatype 'a result = Returned 'a | Raised string

text \<open>
  \<^verbatim>\<open>loadExercisesFromJSON\<close>. Reading and parsing the file is the environment's part: the
  file is given as what \<^verbatim>\<open>readFile\<close> and \<^verbatim>\<open>JSON.parse\<close> make of it, the thrown error or
  the parsed records. The source casts the parsed value to an array of records; a document
  of another shape is outside the declared interface.
\<close>

definition loadExercisesFromJSON ::
  "string + ExerciseData list \<Rightarrow> world \<Rightarrow> ExerciseData list result \<times> world" where
  "loadExercisesFromJSON file w =
     (case file of
        Inr exercises \<Rightarrow> (Returned exercises, console_log (ReadExercises (length exercises)) w)
      | Inl error \<Rightarrow> (Raised error, console_error (ReadFailed error) w))"

text \<open>\<^verbatim>\<open>xs.slice(a, b)\<close> for indices \<open>0 \<le> a\<close>, \<open>0 \<le> b\<close>: empty when \<open>b \<le> a\<close>.\<close>

definition slice :: "'a list \<Rightarrow> nat \<Rightarrow> nat \<Rightarrow> 'a list" where
  "slice xs a b = take (b - a) (drop a xs)"

text \<open>
  One pass through the body of the loop of \<^verbatim>\<open>insertExercisesInBatches\<close>, on the state
  (inserted count, error count, world). The batch number in the messages is
  \<^verbatim>\<open>Math.floor(i / batchSize) + 1\<close>. The pause between batches is not modelled.
\<close>

definition insert_step ::
  "(nat \<Rightarrow> fault) \<Rightarrow> DatabaseExercise list \<Rightarrow> nat \<Rightarrow> nat \<Rightarrow> nat \<times> nat \<times> world
   \<Rightarrow> nat \<times> nat \<times> world" where
  "insert_step fs exercises batchSize i s =
     (case s of (insertedCount, errorCount, w) \<Rightarrow>
        (let batch = slice exercises i (i + batchSize) in
         case insert_rows fs batch w of
           (Thrown error, w') \<Rightarrow>
             (insertedCount, errorCount + length batch,
              console_error (BatchUnexpected (i div batchSize + 1) error) w')
         | (Response data (Some error), w') \<Rightarrow>
             (insertedCount, errorCount + length batch,
              console_error (BatchFailed (i div batchSize + 1) error) w')
         | (Response data None, w') \<Rightarrow>
             (insertedCount + length batch, errorCount,
              console_log (BatchDone (i div batchSize + 1) (length batch)) w')))"

text \<open>
  The loop \<^verbatim>\<open>for (let i = 0; i < exercises.length; i += batchSize)\<close>. With a batch size
  of zero and a non-empty list it never ends, so the loop is a partial function and
  \<open>None\<close> stands for a run that does not return.
\<close>

partial_function (option) insert_loop ::
  "(nat \<Rightarrow> fault) \<Rightarrow> DatabaseExercise list \<Rightarrow> nat \<Rightarrow> nat \<Rightarrow> nat \<times> nat \<times> world
   \<Rightarrow> (nat \<times> nat \<times> world) option" where
  "insert_loop fs exercises batchSize i s =
     (if i < length exercises
      then insert_loop fs exercises batchSize (i + batchSize)
             (insert_step fs exercises batchSize i s)
      else Some s)"

declare insert_loop.simps [code]

text \<open>\<^verbatim>\<open>insertExercisesInBatches(exercises, batchSize = 100)\<close>: \<open>None\<close> is the omitted argument.\<close>

definition batchSize_of :: "nat option \<Rightarrow> nat" where
  "batchSize_of batchSizeArg = (case batchSizeArg of None \<Rightarrow> 100 | Some b \<Rightarrow> b)"

definition insertExercisesInBatches ::
  "(nat \<Rightarrow> fault) \<Rightarrow> DatabaseExercise list \<Rightarrow> nat option \<Rightarrow> world
   \<Rightarrow> (nat \<times> nat \<times> world) option" where
  "insertExercisesInBatches fs exercises batchSizeArg w =
     (let batchSize = batchSize_of batchSizeArg in
      insert_loop fs exercises batchSize 0
        (0, 0, console_log (InsertStart (length exercises) batchSize) w))"

text \<open>
  \<^verbatim>\<open>checkExistingExercises\<close>: it never throws. \<^verbatim>\<open>data?.map(...) || []\<close> gives the empty
  list for \<^verbatim>\<open>data = null\<close>.
\<close>

definition checkExistingExercises :: "(nat \<Rightarrow> fault) \<Rightarrow> world \<Rightarrow> string list \<times> world" where
  "checkExistingExercises fs w =
     (case select_ids fs w of
        (Thrown error, w') \<Rightarrow> ([], console_error (ExistingCheckUnexpected error) w')
      | (Response data (Some error), w') \<Rightarrow> ([], console_error (ExistingCheckFailed error) w')
      | (Response data None, w') \<Rightarrow> ((case data of None \<Rightarrow> [] | Some ids \<Rightarrow> ids), w'))"

text \<open>The rows of \<^verbatim>\<open>main\<close> that remain after the identifier filter.\<close>

definition newExercisesOf :: "string list \<Rightarrow> DatabaseExercise list \<Rightarrow> DatabaseExercise list" where
  "newExercisesOf existingExercises databaseExercises =
     filter (\<lambda>ex. exercise_id ex \<notin> set existingExercises) databaseExercises"

text \<open>The summary block at the end of \<^verbatim>\<open>main\<close>.\<close>

definition print_summary :: "nat \<Rightarrow> nat \<Rightarrow> world \<Rightarrow> world" where
  "print_summary insertedCount errorCount w =
     (let w1 = console_log SummaryRule w;
          w2 = console_log SummaryHeader w1;
          w3 = console_log (SummaryInserted insertedCount) w2;
          w4 = console_log (SummaryFailed errorCount) w3;
          w5 = console_log SummaryAllInactive w4;
          w6 = console_log SummaryGifPaths w5;
          w7 = console_log SummaryRule w6
      in if insertedCount > 0
         then console_log (NextSteps 4)
                (console_log (NextSteps 3)
                  (console_log (NextSteps 2)
                    (console_log (NextSteps 1) (console_log (NextSteps 0) w7))))
         else w7)"

text \<open>
  The part of \<^verbatim>\<open>main\<close> that runs once the rows are transformed: the filter, the early
  return when nothing is new, the batches and the summary.
\<close>

definition insert_new ::
  "(nat \<Rightarrow> fault) \<Rightarrow> string list \<Rightarrow> ExerciseData list \<Rightarrow> world \<Rightarrow> (unit result \<times> world) option" where
  "insert_new fs existingExercises jsonExercises w =
     (let databaseExercises = map mapExerciseToDatabase jsonExercises;
          newExercises = newExercisesOf existingExercises databaseExercises;
          w1 = console_log (NewToInsert (length newExercises)) w;
          w2 = console_log (Skipped (length databaseExercises - length newExercises)) w1
      in if length newExercises = 0
         then Some (Returned (), console_log AllAlreadyPresent w2)
         else (case insertExercisesInBatches fs newExercises None w2 of
                 None \<Rightarrow> None
               | Some (insertedCount, errorCount, w3) \<Rightarrow>
                   Some (Returned (), print_summary insertedCount errorCount w3)))"

text \<open>The body of the \<^verbatim>\<open>try\<close> block of \<^verbatim>\<open>main\<close>.\<close>

definition main_body ::
  "(nat \<Rightarrow> fault) \<Rightarrow> string + ExerciseData list \<Rightarrow> world \<Rightarrow> (unit result \<times> world) option" where
  "main_body fs file w =
     (case select_count fs (console_log TestingConnection (console_log PopulationStart w)) of
        (Thrown error, w1) \<Rightarrow> Some (Raised error, w1)
      | (Response connectionTest (Some connectionError), w1) \<Rightarrow>
          Some (Returned (), console_error (CannotConnect connectionError) w1)
      | (Response connectionTest None, w1) \<Rightarrow>
          (case checkExistingExercises fs
                  (console_log CheckingExisting (console_log ConnectionOk w1)) of
             (existingExercises, w2) \<Rightarrow>
               (case loadExercisesFromJSON file
                       (console_log (FoundExisting (length existingExercises)) w2) of
                  (Raised error, w3) \<Rightarrow> Some (Raised error, w3)
                | (Returned jsonExercises, w3) \<Rightarrow>
                    insert_new fs existingExercises jsonExercises
                      (console_log Converting w3))))"

text \<open>
  \<^verbatim>\<open>main\<close>: the \<^verbatim>\<open>catch\<close> logs and calls \<^verbatim>\<open>process.exit(1)\<close>. The first component of the
  result is the exit status the process ends with: zero when \<^verbatim>\<open>main\<close> returns.
\<close>

definition main ::
  "(nat \<Rightarrow> fault) \<Rightarrow> string + ExerciseData list \<Rightarrow> world \<Rightarrow> (nat \<times> world) option" where
  "main fs file w =
     (case main_body fs file w of
        None \<Rightarrow> None
      | Some (Returned u, w') \<Rightarrow> Some (0, w')
      | Some (Raised error, w') \<Rightarrow> Some (1, console_error (CriticalError error) w'))"

text \<open>
  The configuration read from the process environment. A variable that is unset or empty
  is falsy.
\<close>

record config =
  VITE_SUPABASE_URL :: "string option"
  SUPABASE_SERVICE_ROLE_KEY :: "string option"

definition falsy :: "string option \<Rightarrow> bool" where
  "falsy v = (case v of None \<Rightarrow> True | Some s \<Rightarrow> s = [])"

text \<open>The value of an environment variable that is set.\<close>

definition env_value :: "string option \<Rightarrow> string" where
  "env_value v = (case v of None \<Rightarrow> [] | Some s \<Rightarrow> s)"

text \<open>
  The loader as a process. The module checks the configuration, then calls
  \<^verbatim>\<open>createClient(supabaseUrl, supabaseServiceKey)\<close> outside every \<^verbatim>\<open>try\<close>, and last
  calls \<^verbatim>\<open>main\<close>. \<^verbatim>\<open>createClient\<close> belongs to the client library, not to this
  repository, so it is a parameter: on a URL and a key it returns, or it throws (on a URL
  it rejects, say). An exception that nothing catches ends the process with status one;
  what the runtime then reports is no console call of the script and is not recorded.
\<close>

definition loader ::
  "config \<Rightarrow> (string \<Rightarrow> string \<Rightarrow> unit result) \<Rightarrow> (nat \<Rightarrow> fault)
   \<Rightarrow> string + ExerciseData list \<Rightarrow> world \<Rightarrow> (nat \<times> world) option" where
  "loader cfg createClient fs file w =
     (if falsy (VITE_SUPABASE_URL cfg) \<or> falsy (SUPABASE_SERVICE_ROLE_KEY cfg)
      then Some (1, console_error MissingConfigHint (console_error MissingConfig w))
      else (case createClient (env_value (VITE_SUPABASE_URL cfg))
                   (env_value (SUPABASE_SERVICE_ROLE_KEY cfg)) of
              Raised error \<Rightarrow> Some (1, w)
            | Returned supabase \<Rightarrow> main fs file w))"

section \<open>The activator\<close>

definition BASIC_EXERCISES :: "string list" where
  "BASIC_EXERCISES =
     [''push up'', ''bench press'', ''chest press'', ''chest fly'',
      ''pull up'', ''lat pulldown'', ''barbell row'', ''seated row'',
      ''squat'', ''deadlift'', ''lunge'', ''leg press'', ''calf raise'',
      ''shoulder press'', ''lateral raise'', ''rear delt fly'',
      ''bicep curl'', ''tricep extension'', ''hammer curl'',
      ''plank'', ''crunch'', ''russian twist'', ''mountain climber'']"

text \<open>
  The filter \<^verbatim>\<open>.ilike('name', `%${exerciseName}%`)\<close>: the name contains the search text,
  letter case ignored (ASCII letters; the texts of \<open>BASIC_EXERCISES\<close> hold no wildcard
  character of their own).
\<close>

definition to_lower :: "char \<Rightarrow> char" where
  "to_lower c =
     (let n = (of_char c :: nat) in if 65 \<le> n \<and> n \<le> 90 then char_of (n + 32) else c)"

fun starts_with :: "string \<Rightarrow> string \<Rightarrow> bool" where
  "starts_with s [] = True"
| "starts_with [] (p # ps) = False"
| "starts_with (c # cs) (p # ps) = (c = p \<and> starts_with cs ps)"

fun contains :: "string \<Rightarrow> string \<Rightarrow> bool" where
  "contains [] p = starts_with [] p"
| "contains (c # cs) p = (starts_with (c # cs) p \<or> contains cs p)"

definition ilike_contains :: "string \<Rightarrow> string \<Rightarrow> bool" where
  "ilike_contains s p = contains (map to_lower s) (map to_lower p)"

text \<open>
  \<^verbatim>\<open>select('id, name, exercise_id').ilike('name', ...).eq('is_active', false)\<close>: the key,
  name and identifier of every inactive row whose name matches, in the order of the table.
\<close>

definition matches :: "string \<Rightarrow> nat \<times> DatabaseExercise \<Rightarrow> bool" where
  "matches exerciseName r =
     (ilike_contains (DatabaseExercise.name (snd r)) exerciseName \<and> is_active (snd r) = False)"

definition search_inactive ::
  "(nat \<Rightarrow> fault) \<Rightarrow> string \<Rightarrow> world \<Rightarrow> (nat \<times> string \<times> string) list response \<times> world" where
  "search_inactive fs exerciseName w =
     (case request fs (SearchCall exerciseName) w of
        (f, w') \<Rightarrow>
          (respond f
             (map (\<lambda>r. (fst r, DatabaseExercise.name (snd r), exercise_id (snd r)))
                (filter (matches exerciseName) (rows w'))),
           w'))"

text \<open>\<^verbatim>\<open>update({ is_active: true }).eq('id', exercise.id)\<close>\<close>

definition activate_row :: "(nat \<Rightarrow> fault) \<Rightarrow> nat \<Rightarrow> world \<Rightarrow> unit response \<times> world" where
  "activate_row fs k w =
     (case request fs (UpdateCall k) w of
        (f, w') \<Rightarrow>
          (respond f (),
           if performed f
           then w'\<lparr>rows := map (\<lambda>r. if fst r = k then (fst r, (snd r)\<lparr>is_active := True\<rparr>) else r)
                              (rows w')\<rparr>
           else w'))"

text \<open>\<^verbatim>\<open>select('count').eq('is_active', true)\<close>\<close>

definition count_active :: "(nat \<Rightarrow> fault) \<Rightarrow> world \<Rightarrow> nat list response \<times> world" where
  "count_active fs w =
     (case request fs CountActiveCall w of
        (f, w') \<Rightarrow> (respond f [length (filter (\<lambda>r. is_active (snd r)) (rows w'))], w'))"

text \<open>
  One pass through the body of the loop over \<open>BASIC_EXERCISES\<close>. \<open>Returned\<close> is the end of
  the pass, also by \<^verbatim>\<open>continue\<close>; \<open>Raised\<close> is a rejected request, which leaves the loop.
\<close>

definition activate_one :: "(nat \<Rightarrow> fault) \<Rightarrow> string \<Rightarrow> world \<Rightarrow> unit result \<times> world" where
  "activate_one fs exerciseName w =
     (case search_inactive fs exerciseName (console_log (Searching exerciseName) w) of
        (Thrown error, w1) \<Rightarrow> (Raised error, w1)
      | (Response exercises (Some searchError), w1) \<Rightarrow>
          (Returned (), console_error (SearchFailed exerciseName searchError) w1)
      | (Response None None, w1) \<Rightarrow> (Returned (), console_log (NoneFound exerciseName) w1)
      | (Response (Some []) None, w1) \<Rightarrow> (Returned (), console_log (NoneFound exerciseName) w1)
      | (Response (Some (exercise # others)) None, w1) \<Rightarrow>
          (case activate_row fs (fst exercise) w1 of
             (Thrown error, w2) \<Rightarrow> (Raised error, w2)
           | (Response data (Some updateError), w2) \<Rightarrow>
               (Returned (), console_error (ActivationFailed (fst (snd exercise)) updateError) w2)
           | (Response data None, w2) \<Rightarrow>
               (Returned (),
                console_log (Activated (fst (snd exercise)) (snd (snd exercise))) w2)))"

fun activate_names :: "(nat \<Rightarrow> fault) \<Rightarrow> string list \<Rightarrow> world \<Rightarrow> unit result \<times> world" where
  "activate_names fs [] w = (Returned (), w)"
| "activate_names fs (exerciseName # rest) w =
     (case activate_one fs exerciseName w of
        (Raised error, w') \<Rightarrow> (Raised error, w')
      | (Returned u, w') \<Rightarrow> activate_names fs rest w')"

text \<open>
  The body of the \<^verbatim>\<open>try\<close> block of \<^verbatim>\<open>activateBasicExercises\<close>. The final count reads
  \<^verbatim>\<open>activeCount?.[0]?.count || 0\<close> and ignores the query's error.
\<close>

definition activate_body :: "(nat \<Rightarrow> fault) \<Rightarrow> world \<Rightarrow> unit result \<times> world" where
  "activate_body fs w =
     (case activate_names fs BASIC_EXERCISES (console_log ActivatingStart w) of
        (Raised error, w1) \<Rightarrow> (Raised error, w1)
      | (Returned u, w1) \<Rightarrow>
          (case count_active fs w1 of
             (Thrown error, w2) \<Rightarrow> (Raised error, w2)
           | (Response activeCount countError, w2) \<Rightarrow>
               (Returned (),
                console_log ReadyToTest
                  (console_log
                     (Done (case activeCount of Some (c # cs) \<Rightarrow> c | Some [] \<Rightarrow> 0 | None \<Rightarrow> 0))
                     w2))))"

text \<open>\<^verbatim>\<open>activateBasicExercises\<close>: the \<^verbatim>\<open>catch\<close> logs the error and returns.\<close>

definition activateBasicExercises :: "(nat \<Rightarrow> fault) \<Rightarrow> world \<Rightarrow> world" where
  "activateBasicExercises fs w =
     (case activate_body fs w of
        (Returned u, w') \<Rightarrow> w'
      | (Raised error, w') \<Rightarrow> console_error (CriticalError error) w')"

text \<open>
  The activator as a process: the configuration check, the module-level call of
  \<^verbatim>\<open>createClient\<close>, which nothing catches, then \<^verbatim>\<open>activateBasicExercises\<close>, after
  which the process ends with status zero.
\<close>

definition activator ::
  "config \<Rightarrow> (string \<Rightarrow> string \<Rightarrow> unit result) \<Rightarrow> (nat \<Rightarrow> fault) \<Rightarrow> world \<Rightarrow> nat \<times> world" where
  "activator cfg createClient fs w =
     (if falsy (VITE_SUPABASE_URL cfg) \<or> falsy (SUPABASE_SERVICE_ROLE_KEY cfg)
      then (1, console_error MissingConfig w)
      else (case createClient (env_value (VITE_SUPABASE_URL cfg))
                   (env_value (SUPABASE_SERVICE_ROLE_KEY cfg)) of
              Raised error \<Rightarrow> (1, w)
            | Returned supabase \<Rightarrow> (0, activateBasicExercises fs w)))"

section \<open>Reading a run off the request log\<close>

text \<open>The insert requests of a log, in order: each batch with the fault it met.\<close>

fun attempted :: "(call \<times> fault) list \<Rightarrow> (DatabaseExercise list \<times> fault) list" where
  "attempted [] = []"
| "attempted ((InsertCall batch, f) # evs) = (batch, f) # attempted evs"
| "attempted (ev # evs) = attempted evs"

text \<open>The keys of the update requests of a log, in order.\<close>

fun updates :: "(call \<times> fault) list \<Rightarrow> nat list" where
  "updates [] = []"
| "updates ((UpdateCall k, f) # evs) = k # updates evs"
| "updates (ev # evs) = updates evs"

definition rows_in :: "(DatabaseExercise list \<times> fault) list \<Rightarrow> nat" where
  "rows_in bs = sum_list (map (\<lambda>b. length (fst b)) bs)"

definition succeeded :: "(DatabaseExercise list \<times> fault) list \<Rightarrow> (DatabaseExercise list \<times> fault) list" where
  "succeeded bs = filter (\<lambda>b. performed (snd b)) bs"

definition failed :: "(DatabaseExercise list \<times> fault) list \<Rightarrow> (DatabaseExercise list \<times> fault) list" where
  "failed bs = filter (\<lambda>b. \<not> performed (snd b)) bs"

definition inactive_rows :: "world \<Rightarrow> (nat \<times> DatabaseExercise) list" where
  "inactive_rows w = filter (\<lambda>r. is_active (snd r) = False) (rows w)"

text \<open>
  The successive slices of a list: slice number \<open>j\<close> holds the elements from index
  \<open>j * batchSize\<close> up to \<open>j * batchSize + batchSize\<close>; \<open>chunks xs batchSize k c\<close>
  lists the slices numbered \<open>k\<close> to \<open>c - 1\<close>.
\<close>

definition chunks :: "'a list \<Rightarrow> nat \<Rightarrow> nat \<Rightarrow> nat \<Rightarrow> 'a list list" where
  "chunks xs batchSize k c = map (\<lambda>j. slice xs (j * batchSize) (j * batchSize + batchSize)) [k ..< c]"

text \<open>The lines of a console that report the outcome of a run on standard output.\<close>

fun is_summary :: "message \<Rightarrow> bool" where
  "is_summary (SummaryInserted n) = True"
| "is_summary AllAlreadyPresent = True"
| "is_summary (Done n) = True"
| "is_summary m = False"

definition summary_printed :: "world \<Rightarrow> bool" where
  "summary_printed w = list_ex (\<lambda>l. fst l = Stdout \<and> is_summary (snd l)) (console w)"

definition config_missing :: "config \<Rightarrow> bool" where
  "config_missing cfg = (falsy (VITE_SUPABASE_URL cfg) \<or> falsy (SUPABASE_SERVICE_ROLE_KEY cfg))"

text \<open>The summary block of the loader reports these two counts on standard output.\<close>

definition reports_counts :: "world \<Rightarrow> nat \<Rightarrow> nat \<Rightarrow> bool" where
  "reports_counts w insertedCount errorCount =
     ((Stdout, SummaryInserted insertedCount) \<in> set (console w) \<and>
      (Stdout, SummaryFailed errorCount) \<in> set (console w))"

text \<open>The records of an input file: none when the file cannot be read or parsed.\<close>

definition records_of :: "string + ExerciseData list \<Rightarrow> ExerciseData list" where
  "records_of file = (case file of Inl error \<Rightarrow> [] | Inr exercises \<Rightarrow> exercises)"

definition stored_ids :: "world \<Rightarrow> string list" where
  "stored_ids w = map (\<lambda>r. exercise_id (snd r)) (rows w)"

section \<open>Example inputs\<close>

definition example_exercise :: "string \<Rightarrow> string \<Rightarrow> ExerciseData" where
  "example_exercise i n =
     \<lparr> exerciseId = i, name = n, gifUrl = ''https://example.org/'' @ i @ ''.gif'',
       targetMuscles = Some [''chest''], bodyParts = None, equipments = None,
       secondaryMuscles = None, instructions = Some [''step1''] \<rparr>"

definition example_file :: "ExerciseData list" where
  "example_file =
     [example_exercise ''e1'' ''Push Up'', example_exercise ''e2'' ''Barbell Squat'',
      example_exercise ''e3'' ''Plank'']"

definition example_rows :: "DatabaseExercise list" where
  "example_rows = map mapExerciseToDatabase example_file"

definition bare_exercise :: ExerciseData where
  "bare_exercise =
     \<lparr> exerciseId = ''e1'', name = ''Push Up'', gifUrl = ''u'',
       targetMuscles = None, bodyParts = None, equipments = None,
       secondaryMuscles = None, instructions = None \<rparr>"

definition empty_world :: world where
  "empty_world = \<lparr> rows = [], calls = [], console = [] \<rparr>"

definition populated_world :: world where
  "populated_world = \<lparr> rows = zip [1 ..< 4] example_rows, calls = [], console = [] \<rparr>"

definition example_config :: config where
  "example_config =
     \<lparr> VITE_SUPABASE_URL = Some ''https://db.example.org'',
       SUPABASE_SERVICE_ROLE_KEY = Some ''key'' \<rparr>"

definition no_faults :: "nat \<Rightarrow> fault" where
  "no_faults n = NoFault"

definition first_fails :: "nat \<Rightarrow> fault" where
  "first_fails n = (if n = 0 then ErrorResult ''timeout'' else NoFault)"

definition second_fails :: "nat \<Rightarrow> fault" where
  "second_fails n = (if n = 1 then ErrorResult ''timeout'' else NoFault)"

definition all_fail :: "nat \<Rightarrow> fault" where
  "all_fail n = ErrorResult ''down''"

definition all_throw :: "nat \<Rightarrow> fault" where
  "all_throw n = Throw ''fetch failed''"

text \<open>The example record of the specification.\<close>

definition spec_example :: ExerciseData where
  "spec_example =
     \<lparr> exerciseId = ''e1'', name = ''Push Up'', gifUrl = ''...'',
       targetMuscles = Some [''chest''], bodyParts = Some [], equipments = Some [],
       secondaryMuscles = Some [], instructions = Some [''step1''] \<rparr>"

definition gym_world :: world where
  "gym_world =
     \<lparr> rows = [(1, (mapExerciseToDatabase (example_exercise ''e1'' ''Push Up''))\<lparr>is_active := True\<rparr>),
               (2, mapExerciseToDatabase (example_exercise ''e2'' ''Barbell Squat''))],
       calls = [], console = [] \<rparr>"

definition only_probe_served :: "nat \<Rightarrow> fault" where
  "only_probe_served n = (if n = 0 then NoFault else ErrorResult ''unavailable'')"

definition ids_query_throws :: "nat \<Rightarrow> fault" where
  "ids_query_throws n = (if n = 1 then Throw ''fetch failed'' else NoFault)"

definition unset_config :: config where
  "unset_config = \<lparr> VITE_SUPABASE_URL = None, SUPABASE_SERVICE_ROLE_KEY = Some ''key'' \<rparr>"

text \<open>A client constructor that rejects a URL without the prefix \<^verbatim>\<open>http\<close>.\<close>

definition strict_client :: "string \<Rightarrow> string \<Rightarrow> unit result" where
  "strict_client supabaseUrl supabaseKey =
     (if starts_with supabaseUrl ''http'' then Returned () else Raised ''Invalid supabaseUrl'')"

definition malformed_config :: config where
  "malformed_config =
     \<lparr> VITE_SUPABASE_URL = Some ''abc'', SUPABASE_SERVICE_ROLE_KEY = Some ''key'' \<rparr>"

definition missing_file :: "string + ExerciseData list" where
  "missing_file = Inl ''ENOENT''"

definition probed_world :: world where
  "probed_world = populated_world\<lparr>calls := [(SelectCountCall, NoFault)]\<rparr>"

section \<open>Properties of the transformation\<close>

text \<open>
  Claim C7. Every row produced by the transformation is inactive, whatever the fields of
  the source record are, and its image path is \<^verbatim>\<open>gifs/\<close> followed by the record's
  identifier followed by \<^verbatim>\<open>.gif\<close>.
\<close>

theorem mapExerciseToDatabase_inactive_gif_path:
  "is_active (mapExerciseToDatabase exercise) = False \<and>
   gif_path (mapExerciseToDatabase exercise) = ''gifs/'' @ exerciseId exercise @ ''.gif''"
  by (simp add: mapExerciseToDatabase_def)

text \<open>
  Claim C8. When one of the four list attributes or the instruction list is missing from
  the source record, the produced row carries the empty list for it. The row type has
  every attribute as a list, so none is ever absent from a produced row.
\<close>

theorem mapExerciseToDatabase_missing_lists:
  "(targetMuscles exercise = None \<longrightarrow> target_muscles (mapExerciseToDatabase exercise) = []) \<and>
   (bodyParts exercise = None \<longrightarrow> body_parts (mapExerciseToDatabase exercise) = []) \<and>
   (ExerciseData.equipments exercise = None \<longrightarrow>
      DatabaseExercise.equipments (mapExerciseToDatabase exercise) = []) \<and>
   (secondaryMuscles exercise = None \<longrightarrow>
      secondary_muscles (mapExerciseToDatabase exercise) = []) \<and>
   (ExerciseData.instructions exercise = None \<longrightarrow>
      DatabaseExercise.instructions (mapExerciseToDatabase exercise) = [])"
  by (simp add: mapExerciseToDatabase_def or_empty_def)

theorem mapExerciseToDatabase_missing_lists_witness:
  "target_muscles (mapExerciseToDatabase bare_exercise) = [] \<and>
   body_parts (mapExerciseToDatabase bare_exercise) = [] \<and>
   DatabaseExercise.equipments (mapExerciseToDatabase bare_exercise) = [] \<and>
   secondary_muscles (mapExerciseToDatabase bare_exercise) = [] \<and>
   DatabaseExercise.instructions (mapExerciseToDatabase bare_exercise) = []"
  using mapExerciseToDatabase_missing_lists [of bare_exercise]
  by (simp add: bare_exercise_def)

section \<open>Properties of the batch loop\<close>

lemma attempted_append: "attempted (xs @ ys) = attempted xs @ attempted ys"
  by (induction xs rule: attempted.induct) simp_all

text \<open>
  Induction along the loop for a positive batch size: a relation between the loop index,
  the state there and the final state that holds when the loop ends and is carried
  backwards over one pass, holds from the start; and the loop returns.
\<close>

lemma insert_loop_induct:
  assumes "0 < bs"
    and base: "\<And>i s. length xs \<le> i \<Longrightarrow> Q i s s"
    and step: "\<And>i s s'. i < length xs \<Longrightarrow> Q (i + bs) (insert_step fs xs bs i s) s' \<Longrightarrow> Q i s s'"
  shows "\<exists>s'. insert_loop fs xs bs i s = Some s' \<and> Q i s s'"
proof (induction "length xs - i" arbitrary: i s rule: less_induct)
  case less
  show ?case
  proof (cases "i < length xs")
    case True
    with assms(1) have "length xs - (i + bs) < length xs - i" by arith
    from less[OF this] obtain s' where
      "insert_loop fs xs bs (i + bs) (insert_step fs xs bs i s) = Some s'"
      "Q (i + bs) (insert_step fs xs bs i s) s'" by blast
    with True step show ?thesis by (subst insert_loop.simps) auto
  next
    case False
    with base show ?thesis by (subst insert_loop.simps) auto
  qed
qed

text \<open>With a batch size of zero the loop does not return while rows remain.\<close>

lemma insert_loop_zero_aux:
  assumes "insert_loop fs xs bs i s = Some y"
  shows "bs = 0 \<longrightarrow> \<not> i < length xs"
proof (rule insert_loop.raw_induct
        [where P = "\<lambda>fs xs bs i s y. bs = 0 \<longrightarrow> \<not> i < length xs", OF _ assms])
  fix f fs xs bs i s y
  assume IH: "\<And>fs xs bs i s y. f fs xs bs i s = Some y \<Longrightarrow> bs = 0 \<longrightarrow> \<not> i < length xs"
    and body: "(if i < length xs then f fs xs bs (i + bs) (insert_step fs xs bs i s) else Some s)
               = Some y"
  show "bs = 0 \<longrightarrow> \<not> i < length xs"
  proof (intro impI notI)
    assume z: "bs = 0" and lt: "i < length xs"
    with body have "f fs xs 0 i (insert_step fs xs 0 i s) = Some y" by simp
    from IH[OF this] lt show False by simp
  qed
qed

lemma insert_loop_zero_diverges:
  "i < length xs \<Longrightarrow> insert_loop fs xs 0 i s = None"
  using insert_loop_zero_aux[of fs xs 0 i s] by (cases "insert_loop fs xs 0 i s") auto

lemma insert_step_effect:
  "\<exists>w'. insert_step fs xs bs i (ins, err, w) =
      (if performed (fs (length (calls w))) then ins + length (slice xs i (i + bs)) else ins,
       if performed (fs (length (calls w))) then err else err + length (slice xs i (i + bs)),
       w') \<and>
     calls w' = calls w @ [(InsertCall (slice xs i (i + bs)), fs (length (calls w)))]"
  by (cases "fs (length (calls w))")
     (simp_all add: insert_step_def insert_rows_def request_def Let_def console_log_def console_error_def)

lemma ceil_step:
  assumes "0 < (b::nat)" "k * b < n"
  shows "k < (n + b - 1) div b"
proof -
  from assms have "(k + 1) * b \<le> n + b - 1" by (simp add: algebra_simps)
  then have "((k + 1) * b) div b \<le> (n + b - 1) div b" by (rule div_le_mono)
  with assms(1) show ?thesis by simp
qed

lemma ceil_done:
  assumes "0 < (b::nat)" "n \<le> k * b"
  shows "(n + b - 1) div b \<le> k"
proof -
  from assms have "n + b - 1 < (k + 1) * b" by (simp add: algebra_simps)
  with assms(1) show ?thesis
    by (metis Suc_eq_plus1 less_Suc_eq_le less_mult_imp_div_less)
qed

text \<open>
  The loop from slice \<open>k\<close> on: it returns, it submits the remaining slices whatever the
  faults, and it adds the sizes of the served and of the failed batches to the two counts.
\<close>

lemma insert_loop_spec:
  assumes bs: "0 < bs"
  shows "\<exists>ins' err' w' new. insert_loop fs xs bs (k * bs) (ins, err, w) = Some (ins', err', w') \<and>
           calls w' = calls w @ new \<and>
           map fst (attempted new) = chunks xs bs k ((length xs + bs - 1) div bs) \<and>
           ins' = ins + rows_in (succeeded (attempted new)) \<and>
           err' = err + rows_in (failed (attempted new))"
proof -
  define Q where "Q = (\<lambda>i (s:: nat \<times> nat \<times> world) (s' :: nat \<times> nat \<times> world).
     \<forall>k. i = k * bs \<longrightarrow> (\<exists>new. calls (snd (snd s')) = calls (snd (snd s)) @ new \<and>
           map fst (attempted new) = chunks xs bs k ((length xs + bs - 1) div bs) \<and>
           fst s' = fst s + rows_in (succeeded (attempted new)) \<and>
           fst (snd s') = fst (snd s) + rows_in (failed (attempted new))))"
  have base: "\<And>i s. length xs \<le> i \<Longrightarrow> Q i s s"
  proof -
    fix i s assume le: "length xs \<le> i"
    show "Q i s s" unfolding Q_def
    proof (intro allI impI)
      fix k assume "i = k * bs"
      with le have "length xs \<le> k * bs" by simp
      with bs have "(length xs + bs - 1) div bs \<le> k" by (rule ceil_done)
      then show "\<exists>new. calls (snd (snd s)) = calls (snd (snd s)) @ new \<and>
           map fst (attempted new) = chunks xs bs k ((length xs + bs - 1) div bs) \<and>
           fst s = fst s + rows_in (succeeded (attempted new)) \<and>
           fst (snd s) = fst (snd s) + rows_in (failed (attempted new))"
        by (intro exI[of _ "[]"]) (simp add: chunks_def rows_in_def succeeded_def failed_def)
    qed
  qed
  have step: "\<And>i s s'. i < length xs \<Longrightarrow> Q (i + bs) (insert_step fs xs bs i s) s' \<Longrightarrow> Q i s s'"
  proof -
    fix i s s' assume lt: "i < length xs" and q: "Q (i + bs) (insert_step fs xs bs i s) s'"
    obtain ins err w where s: "s = (ins, err, w)" by (cases s) auto
    from insert_step_effect[of fs xs bs i ins err w] obtain w1 where
      st: "insert_step fs xs bs i (ins, err, w) =
        (if performed (fs (length (calls w))) then ins + length (slice xs i (i + bs)) else ins,
         if performed (fs (length (calls w))) then err else err + length (slice xs i (i + bs)),
         w1)"
      and c1: "calls w1 = calls w @ [(InsertCall (slice xs i (i + bs)), fs (length (calls w)))]"
      by blast
    show "Q i s s'" unfolding Q_def
    proof (intro allI impI)
      fix k assume ik: "i = k * bs"
      then have "i + bs = Suc k * bs" by simp
      with q obtain new where
        n1: "calls (snd (snd s')) = calls w1 @ new"
        and n2: "map fst (attempted new) = chunks xs bs (Suc k) ((length xs + bs - 1) div bs)"
        and n3: "fst s' = fst (insert_step fs xs bs i s) + rows_in (succeeded (attempted new))"
        and n4: "fst (snd s') = fst (snd (insert_step fs xs bs i s)) + rows_in (failed (attempted new))"
        unfolding Q_def s st by (metis fst_conv snd_conv)
      from lt ik have "k * bs < length xs" by simp
      with bs have kc: "k < (length xs + bs - 1) div bs" by (rule ceil_step)
      let ?ev = "(InsertCall (slice xs i (i + bs)), fs (length (calls w)))"
      have "calls (snd (snd s')) = calls (snd (snd s)) @ (?ev # new)"
        using n1 c1 s by simp
      moreover have "map fst (attempted (?ev # new)) = chunks xs bs k ((length xs + bs - 1) div bs)"
        using n2 kc ik by (simp add: chunks_def upt_conv_Cons)
      moreover have "fst s' = fst s + rows_in (succeeded (attempted (?ev # new)))"
        using n3 s st by (simp add: rows_in_def succeeded_def)
      moreover have "fst (snd s') = fst (snd s) + rows_in (failed (attempted (?ev # new)))"
        using n4 s st by (simp add: rows_in_def failed_def)
      ultimately show "\<exists>new. calls (snd (snd s')) = calls (snd (snd s)) @ new \<and>
           map fst (attempted new) = chunks xs bs k ((length xs + bs - 1) div bs) \<and>
           fst s' = fst s + rows_in (succeeded (attempted new)) \<and>
           fst (snd s') = fst (snd s) + rows_in (failed (attempted new))"
        by blast
    qed
  qed
  from insert_loop_induct[of bs xs Q fs "k * bs" "(ins, err, w)", OF bs base step]
  obtain s' where run: "insert_loop fs xs bs (k * bs) (ins, err, w) = Some s'"
    and q: "Q (k * bs) (ins, err, w) s'"
    by blast
  obtain ins' err' w' where s': "s' = (ins', err', w')" by (cases s') auto
  from q have "\<exists>new. calls w' = calls w @ new \<and>
    map fst (attempted new) = chunks xs bs k ((length xs + bs - 1) div bs) \<and>
    ins' = ins + rows_in (succeeded (attempted new)) \<and>
    err' = err + rows_in (failed (attempted new))"
    unfolding Q_def s' by simp
  with run s' show ?thesis by simp
qed

lemma chunks_concat: "0 < bs \<Longrightarrow> concat (chunks xs bs 0 c) = take (c * bs) xs"
proof (induction c)
  case 0 then show ?case by (simp add: chunks_def)
next
  case (Suc c)
  have "take (Suc c * bs) xs = take (c * bs + bs) xs" by (simp add: add.commute)
  also have "\<dots> = take (c * bs) xs @ take bs (drop (c * bs) xs)" by (rule take_add)
  finally show ?case using Suc by (simp add: chunks_def slice_def)
qed

lemma chunks_all: 
  assumes "0 < bs" shows "concat (chunks xs bs 0 ((length xs + bs - 1) div bs)) = xs"
proof -
  have "length xs \<le> ((length xs + bs - 1) div bs) * bs"
    using assms div_mult_mod_eq[of "length xs + bs - 1" bs]
      mod_less_divisor[of bs "length xs + bs - 1"] by linarith
  with assms show ?thesis by (simp add: chunks_concat)
qed

lemma chunks_small: "b \<in> set (chunks xs bs k c) \<Longrightarrow> length b \<le> bs"
  by (auto simp: chunks_def slice_def)

lemma insertExercisesInBatches_spec:
  assumes "0 < batchSize_of arg"
  shows "\<exists>insertedCount errorCount w' new.
           insertExercisesInBatches fs exercises arg w = Some (insertedCount, errorCount, w') \<and>
           calls w' = calls w @ new \<and>
           map fst (attempted new) =
             chunks exercises (batchSize_of arg) 0
               ((length exercises + batchSize_of arg - 1) div batchSize_of arg) \<and>
           insertedCount = rows_in (succeeded (attempted new)) \<and>
           errorCount = rows_in (failed (attempted new))"
proof -
  let ?w0 = "console_log (InsertStart (length exercises) (batchSize_of arg)) w"
  have c0: "calls ?w0 = calls w" by (simp add: console_log_def)
  from insert_loop_spec[OF assms, of fs exercises 0 0 0 ?w0]
  obtain ins' err' w' new where
    "insert_loop fs exercises (batchSize_of arg) 0 (0, 0, ?w0) = Some (ins', err', w')"
    "calls w' = calls ?w0 @ new"
    "map fst (attempted new) =
       chunks exercises (batchSize_of arg) 0
         ((length exercises + batchSize_of arg - 1) div batchSize_of arg)"
    "ins' = rows_in (succeeded (attempted new))"
    "err' = rows_in (failed (attempted new))"
    by auto
  with c0 show ?thesis by (simp add: insertExercisesInBatches_def)
qed

text \<open>
  Claim C3. Whatever faults the insert requests meet, the loop returns, and the batches it
  submitted are all the successive slices of the input: a failed batch (an error result or
  a thrown exception) keeps no later batch from being attempted. The failed count is the
  sum of the sizes of the batches that failed, the inserted count the sum of the sizes of
  those that succeeded.
\<close>

theorem insert_batches_partial_failure:
  assumes "0 < batchSize_of arg"
  shows "\<exists>insertedCount errorCount w' new.
           insertExercisesInBatches fs exercises arg w = Some (insertedCount, errorCount, w') \<and>
           calls w' = calls w @ new \<and>
           map fst (attempted new) =
             chunks exercises (batchSize_of arg) 0
               ((length exercises + batchSize_of arg - 1) div batchSize_of arg) \<and>
           errorCount = rows_in (failed (attempted new)) \<and>
           insertedCount = rows_in (succeeded (attempted new))"
  using insertExercisesInBatches_spec[OF assms, of fs exercises w] by blast

theorem insert_batches_partial_failure_witness:
  "0 < batchSize_of (Some 2) \<and>
   (\<exists>w' new.
      insertExercisesInBatches first_fails example_rows (Some 2) empty_world = Some (1, 2, w') \<and>
      calls w' = calls empty_world @ new \<and>
      map fst (attempted new) = [take 2 example_rows, drop 2 example_rows] \<and>
      map snd (attempted new) = [ErrorResult ''timeout'', NoFault])"
proof -
  have h: "0 < batchSize_of (Some 2)" by (simp add: batchSize_of_def)
  from insert_batches_partial_failure[OF h, of first_fails example_rows empty_world]
  obtain insertedCount errorCount w' new where
    run: "insertExercisesInBatches first_fails example_rows (Some 2) empty_world =
            Some (insertedCount, errorCount, w')"
    and new: "calls w' = calls empty_world @ new"
    and e: "errorCount = rows_in (failed (attempted new))"
    and i: "insertedCount = rows_in (succeeded (attempted new))"
    by blast
  have ev: "map_option (\<lambda>s. (fst s, fst (snd s), attempted (calls (snd (snd s)))))
          (insertExercisesInBatches first_fails example_rows (Some 2) empty_world) =
        Some (1, 2, [(take 2 example_rows, ErrorResult ''timeout''), (drop 2 example_rows, NoFault)])"
    by code_simp
  from ev run new have "insertedCount = 1" "errorCount = 2"
    "attempted new = [(take 2 example_rows, ErrorResult ''timeout''), (drop 2 example_rows, NoFault)]"
    by (simp_all add: empty_world_def)
  with h run new show ?thesis by simp
qed

text \<open>
  Claim C4. With \<open>N\<close> rows and a batch size \<open>B > 0\<close> the loader issues exactly
  \<open>ceil(N / B) = (N + B - 1) div B\<close> insert requests, each carrying at most \<open>B\<close> rows.
\<close>

theorem insert_batches_count_and_size:
  assumes "0 < batchSize_of arg"
  shows "\<exists>insertedCount errorCount w' new.
           insertExercisesInBatches fs exercises arg w = Some (insertedCount, errorCount, w') \<and>
           calls w' = calls w @ new \<and>
           length (attempted new) =
             (length exercises + batchSize_of arg - 1) div batchSize_of arg \<and>
           (\<forall>b \<in> set (attempted new). length (fst b) \<le> batchSize_of arg)"
proof -
  from insertExercisesInBatches_spec[OF assms, of fs exercises w]
  obtain insertedCount errorCount w' new where
    run: "insertExercisesInBatches fs exercises arg w = Some (insertedCount, errorCount, w')"
    and new: "calls w' = calls w @ new"
    and ch: "map fst (attempted new) =
             chunks exercises (batchSize_of arg) 0
               ((length exercises + batchSize_of arg - 1) div batchSize_of arg)"
    by blast
  from ch have "length (map fst (attempted new)) =
      length (chunks exercises (batchSize_of arg) 0
               ((length exercises + batchSize_of arg - 1) div batchSize_of arg))" by simp
  then have len: "length (attempted new) =
      (length exercises + batchSize_of arg - 1) div batchSize_of arg"
    by (simp add: chunks_def)
  have "\<forall>b \<in> set (attempted new). length (fst b) \<le> batchSize_of arg"
  proof
    fix b assume "b \<in> set (attempted new)"
    then have "fst b \<in> set (map fst (attempted new))" by simp
    with ch show "length (fst b) \<le> batchSize_of arg" by (simp add: chunks_small)
  qed
  with run new len show ?thesis by blast
qed

theorem insert_batches_count_and_size_witness:
  "0 < batchSize_of (Some 2) \<and>
   (\<exists>insertedCount errorCount w' new.
      insertExercisesInBatches second_fails example_rows (Some 2) empty_world =
        Some (insertedCount, errorCount, w') \<and>
      calls w' = calls empty_world @ new \<and>
      length (attempted new) = (length example_rows + 2 - 1) div 2 \<and>
      map (\<lambda>b. length (fst b)) (attempted new) = [2, 1])"
proof -
  have h: "0 < batchSize_of (Some 2)" by (simp add: batchSize_of_def)
  from insert_batches_count_and_size[OF h, of second_fails example_rows empty_world]
  obtain insertedCount errorCount w' new where
    run: "insertExercisesInBatches second_fails example_rows (Some 2) empty_world =
            Some (insertedCount, errorCount, w')"
    and new: "calls w' = calls empty_world @ new"
    and len: "length (attempted new) = (length example_rows + batchSize_of (Some 2) - 1) div
                batchSize_of (Some 2)"
    by blast
  have ev: "map_option (\<lambda>s. map (\<lambda>b. length (fst b)) (attempted (calls (snd (snd s)))))
          (insertExercisesInBatches second_fails example_rows (Some 2) empty_world) =
        Some [2, 1]"
    by code_simp
  from ev run new have "map (\<lambda>b. length (fst b)) (attempted new) = [2, 1]"
    by (simp add: empty_world_def)
  with h run new len show ?thesis by (simp add: batchSize_of_def)
qed

text \<open>
  Claim C9. The batches submitted by the loop, concatenated in the order of submission,
  are the input list: every row is in exactly one insert request, and the order is kept.
\<close>

theorem insert_batches_cover_input:
  assumes "0 < batchSize_of arg"
  shows "\<exists>insertedCount errorCount w' new.
           insertExercisesInBatches fs exercises arg w = Some (insertedCount, errorCount, w') \<and>
           calls w' = calls w @ new \<and>
           concat (map fst (attempted new)) = exercises"
proof -
  from insertExercisesInBatches_spec[OF assms, of fs exercises w]
  obtain insertedCount errorCount w' new where
    run: "insertExercisesInBatches fs exercises arg w = Some (insertedCount, errorCount, w')"
    and new: "calls w' = calls w @ new"
    and ch: "map fst (attempted new) =
             chunks exercises (batchSize_of arg) 0
               ((length exercises + batchSize_of arg - 1) div batchSize_of arg)"
    by blast
  have "concat (map fst (attempted new)) = exercises"
    unfolding ch using assms by (rule chunks_all)
  with run new show ?thesis by blast
qed

theorem insert_batches_cover_input_witness:
  "0 < batchSize_of None \<and>
   (\<exists>insertedCount errorCount w' new.
      insertExercisesInBatches no_faults example_rows None empty_world =
        Some (insertedCount, errorCount, w') \<and>
      calls w' = calls empty_world @ new \<and>
      concat (map fst (attempted new)) = example_rows)"
proof -
  have h: "0 < batchSize_of None" by (simp add: batchSize_of_def)
  from insert_batches_cover_input[OF h, of no_faults example_rows empty_world]
  show ?thesis using h by simp
qed

section \<open>Properties of the loader run\<close>

lemma calls_console_log [simp]: "calls (console_log m w) = calls w"
  by (simp add: console_log_def)

lemma calls_console_error [simp]: "calls (console_error m w) = calls w"
  by (simp add: console_error_def)

lemma rows_console_log [simp]: "rows (console_log m w) = rows w"
  by (simp add: console_log_def)

lemma rows_console_error [simp]: "rows (console_error m w) = rows w"
  by (simp add: console_error_def)

lemma summary_printed_log [simp]:
  "summary_printed (console_log m w) = (is_summary m \<or> summary_printed w)"
  by (auto simp: summary_printed_def console_log_def)

lemma calls_print_summary [simp]: "calls (print_summary i e w) = calls w"
  by (simp add: print_summary_def Let_def)

lemma summary_printed_print_summary [simp]: "summary_printed (print_summary i e w)"
  by (simp add: print_summary_def Let_def)

lemma checkExistingExercises_spec:
  "\<exists>w'. checkExistingExercises fs w =
           (if fs (length (calls w)) = NoFault then stored_ids w else [], w') \<and>
         calls w' = calls w @ [(SelectIdsCall, fs (length (calls w)))] \<and>
         rows w' = rows w"
  by (cases "fs (length (calls w))")
     (simp_all add: checkExistingExercises_def select_ids_def request_def Let_def stored_ids_def)

lemma insert_new_spec:
  "\<exists>w' new. insert_new fs existing json w = Some (Returned (), w') \<and>
      calls w' = calls w @ new \<and>
      concat (map fst (attempted new)) = newExercisesOf existing (map mapExerciseToDatabase json) \<and>
      (newExercisesOf existing (map mapExerciseToDatabase json) = [] \<longrightarrow> new = []) \<and>
      summary_printed w'"
proof (cases "newExercisesOf existing (map mapExerciseToDatabase json) = []")
  case True
  then show ?thesis by (simp add: insert_new_def Let_def)
next
  case False
  let ?new = "newExercisesOf existing (map mapExerciseToDatabase json)"
  let ?w2 = "console_log (Skipped (length (map mapExerciseToDatabase json) - length ?new))
              (console_log (NewToInsert (length ?new)) w)"
  have "0 < batchSize_of None" by (simp add: batchSize_of_def)
  from insertExercisesInBatches_spec[OF this, of fs ?new ?w2]
  obtain insertedCount errorCount w3 new where
    run: "insertExercisesInBatches fs ?new None ?w2 = Some (insertedCount, errorCount, w3)"
    and c: "calls w3 = calls ?w2 @ new"
    and ch: "map fst (attempted new) =
             chunks ?new (batchSize_of None) 0
               ((length ?new + batchSize_of None - 1) div batchSize_of None)"
    by blast
  have "concat (map fst (attempted new)) = ?new"
    unfolding ch using \<open>0 < batchSize_of None\<close> by (rule chunks_all)
  with False run c show ?thesis by (simp add: insert_new_def Let_def)
qed

lemma main_body_probe_throw:
  assumes "fs (length (calls w)) = Throw m"
  shows "\<exists>w'. main_body fs file w = Some (Raised m, w') \<and>
           calls w' = calls w @ [(SelectCountCall, Throw m)]"
  using assms by (simp add: main_body_def select_count_def request_def Let_def)

lemma main_body_probe_error:
  assumes "fs (length (calls w)) = ErrorResult m"
  shows "\<exists>w'. main_body fs file w = Some (Returned (), w') \<and>
           calls w' = calls w @ [(SelectCountCall, ErrorResult m)]"
  using assms by (simp add: main_body_def select_count_def request_def Let_def)

lemma main_body_served:
  assumes "performed (fs (length (calls w)))"
    and ex: "existing = (if fs (Suc (length (calls w))) = NoFault then stored_ids w else [])"
  shows "\<exists>w2. calls w2 = calls w @ [(SelectCountCall, fs (length (calls w))),
                                  (SelectIdsCall, fs (Suc (length (calls w))))] \<and>
           main_body fs file w =
             (case loadExercisesFromJSON file (console_log (FoundExisting (length existing)) w2) of
                (Raised error, w3) \<Rightarrow> Some (Raised error, w3)
              | (Returned jsonExercises, w3) \<Rightarrow>
                  insert_new fs existing jsonExercises (console_log Converting w3))"
proof -
  let ?w0 = "console_log TestingConnection (console_log PopulationStart w)"
  let ?w1 = "?w0\<lparr>calls := calls ?w0 @ [(SelectCountCall, fs (length (calls w)))]\<rparr>"
  let ?w1' = "console_log CheckingExisting (console_log ConnectionOk ?w1)"
  have l1: "length (calls ?w1') = Suc (length (calls w))" by simp
  have s1: "stored_ids ?w1' = stored_ids w" by (simp add: stored_ids_def)
  from checkExistingExercises_spec[of fs ?w1'] obtain w2 where
    ce: "checkExistingExercises fs ?w1' = (existing, w2)"
    and c2: "calls w2 = calls ?w1' @ [(SelectIdsCall, fs (Suc (length (calls w))))]"
    unfolding l1 s1 ex by blast
  have sel: "select_count fs ?w0 = (respond (fs (length (calls w))) [length (rows w)], ?w1)"
    by (simp add: select_count_def request_def Let_def)
  from assms(1) have "main_body fs file w =
             (case loadExercisesFromJSON file (console_log (FoundExisting (length existing)) w2) of
                (Raised error, w3) \<Rightarrow> Some (Raised error, w3)
              | (Returned jsonExercises, w3) \<Rightarrow>
                  insert_new fs existing jsonExercises (console_log Converting w3))"
    unfolding main_body_def sel using ce
    by (cases "fs (length (calls w))") simp_all
  moreover from c2 have "calls w2 = calls w @ [(SelectCountCall, fs (length (calls w))),
                                  (SelectIdsCall, fs (Suc (length (calls w))))]" by simp
  ultimately show ?thesis by blast
qed

lemma main_body_unreadable:
  assumes "performed (fs (length (calls w)))"
  shows "\<exists>w'. main_body fs (Inl error) w = Some (Raised error, w') \<and>
           calls w' = calls w @ [(SelectCountCall, fs (length (calls w))),
                                 (SelectIdsCall, fs (Suc (length (calls w))))]"
proof -
  from main_body_served[of fs w _ "Inl error", OF assms refl] show ?thesis
    by (auto simp: loadExercisesFromJSON_def)
qed

lemma main_body_readable:
  assumes "performed (fs (length (calls w)))"
    and "existing = (if fs (Suc (length (calls w))) = NoFault then stored_ids w else [])"
  shows "\<exists>w' new. main_body fs (Inr json) w = Some (Returned (), w') \<and>
           calls w' = calls w @ [(SelectCountCall, fs (length (calls w))),
                                 (SelectIdsCall, fs (Suc (length (calls w))))] @ new \<and>
           concat (map fst (attempted new)) =
             newExercisesOf existing (map mapExerciseToDatabase json) \<and>
           (newExercisesOf existing (map mapExerciseToDatabase json) = [] \<longrightarrow> new = []) \<and>
           summary_printed w'"
proof -
  from main_body_served[of fs w existing "Inr json", OF assms] obtain w2 where
    c2: "calls w2 = calls w @ [(SelectCountCall, fs (length (calls w))),
                                  (SelectIdsCall, fs (Suc (length (calls w))))]"
    and mb: "main_body fs (Inr json) w =
       insert_new fs existing json
         (console_log Converting (console_log (ReadExercises (length json))
            (console_log (FoundExisting (length existing)) w2)))"
    by (auto simp: loadExercisesFromJSON_def)
  from insert_new_spec[of fs existing json
      "console_log Converting (console_log (ReadExercises (length json))
            (console_log (FoundExisting (length existing)) w2))"]
  show ?thesis unfolding mb using c2 by simp
qed

lemma loadExercisesFromJSON_calls:
  "loadExercisesFromJSON file w = (r, w') \<Longrightarrow> calls w' = calls w"
  by (auto simp: loadExercisesFromJSON_def split: sum.splits)

lemma all_known_none_new:
  assumes "set (map exerciseId json) \<subseteq> set existing"
  shows "newExercisesOf existing (map mapExerciseToDatabase json) = []"
  using assms by (auto simp: newExercisesOf_def filter_empty_conv mapExerciseToDatabase_def)

lemma none_known_all_new: "newExercisesOf [] xs = xs"
  by (simp add: newExercisesOf_def)

text \<open>
  The example of the specification: one record against an empty store gives one insert
  request carrying the transformed row.
\<close>

lemma spec_example_run:
  "map_option (attempted \<circ> calls \<circ> snd)
     (loader example_config strict_client no_faults (Inr [spec_example]) empty_world) =
   Some [([\<lparr> exercise_id = ''e1'', name = ''Push Up'', gif_path = ''gifs/e1.gif'',
              target_muscles = [''chest''], body_parts = [], equipments = [],
              secondary_muscles = [], instructions = [''step1''], is_active = False \<rparr>],
          NoFault)]"
  by code_simp

text \<open>
  Claim C1, amended. When the identifier of every record of the input file is already in
  the store and the identifier query (the second request of a run) is served, a run of the
  loader issues no insert request: the filter removes every transformed row. This holds
  for every configuration, every input file and every outcome of the connectivity probe.
  Without the condition on the query the claim fails: a failed query makes every row new.
\<close>

theorem second_run_inserts_nothing:
  assumes ids: "set (map exerciseId (records_of file)) \<subseteq> set (stored_ids w)"
    and ok: "fs (Suc (length (calls w))) = NoFault"
  shows "\<exists>code w'. loader cfg createClient fs file w = Some (code, w') \<and>
           attempted (calls w') = attempted (calls w)"
proof (cases "config_missing cfg \<or>
    (\<exists>error. createClient (env_value (VITE_SUPABASE_URL cfg))
                (env_value (SUPABASE_SERVICE_ROLE_KEY cfg)) = Raised error)")
  case True
  then show ?thesis by (auto simp: loader_def config_missing_def)
next
  case False
  then have l: "\<And>f. loader cfg createClient fs f w = main fs f w"
    by (cases "createClient (env_value (VITE_SUPABASE_URL cfg))
                 (env_value (SUPABASE_SERVICE_ROLE_KEY cfg))")
       (simp_all add: loader_def config_missing_def)
  have served: "?thesis" if p: "performed (fs (length (calls w)))"
  proof (cases "file")
    case (Inl error)
    from main_body_unreadable[of fs w error, OF p] obtain w' where
      "main_body fs (Inl error) w = Some (Raised error, w')"
      "calls w' = calls w @ [(SelectCountCall, fs (length (calls w))),
                             (SelectIdsCall, fs (Suc (length (calls w))))]" by blast
    then show ?thesis
      by (simp add: l main_def Inl attempted_append)
  next
    case (Inr json)
    from ids have none: "newExercisesOf (stored_ids w) (map mapExerciseToDatabase json) = []"
      by (simp add: Inr records_of_def all_known_none_new)
    from ok have "stored_ids w = (if fs (Suc (length (calls w))) = NoFault then stored_ids w else [])"
      by simp
    from main_body_readable[of fs w "stored_ids w" json, OF p this] none obtain w' where
      "main_body fs (Inr json) w = Some (Returned (), w')"
      "calls w' = calls w @ [(SelectCountCall, fs (length (calls w))),
                             (SelectIdsCall, fs (Suc (length (calls w))))]" by auto
    then show ?thesis
      by (simp add: l main_def Inr attempted_append)
  qed
  show ?thesis
  proof (cases "fs (length (calls w))")
    case (ErrorResult m)
    from main_body_probe_error[of fs w _ "file", OF this] show ?thesis
      by (auto simp: l main_def attempted_append)
  next
    case (Throw m)
    from main_body_probe_throw[of fs w _ "file", OF this] show ?thesis
      by (auto simp: l main_def attempted_append)
  next
    case NoFault
    then show ?thesis using served by simp
  next
    case NullData
    then show ?thesis using served by simp
  qed
qed

theorem second_run_inserts_nothing_witness:
  "set (map exerciseId (records_of (Inr example_file))) \<subseteq> set (stored_ids populated_world) \<and>
   no_faults (Suc (length (calls populated_world))) = NoFault \<and>
   map_option (rows \<circ> snd)
     (loader example_config strict_client no_faults (Inr example_file) empty_world) =
     Some (rows populated_world) \<and>
   (\<exists>code w'. loader example_config strict_client no_faults (Inr example_file) populated_world =
        Some (code, w') \<and>
      attempted (calls w') = attempted (calls populated_world))"
proof -
  have h1: "set (map exerciseId (records_of (Inr example_file))) \<subseteq> set (stored_ids populated_world)"
    by code_simp
  have h2: "no_faults (Suc (length (calls populated_world))) = NoFault"
    by (simp add: no_faults_def)
  have first: "map_option (rows \<circ> snd)
     (loader example_config strict_client no_faults (Inr example_file) empty_world) =
     Some (rows populated_world)"
    by code_simp
  from second_run_inserts_nothing[of "Inr example_file" populated_world no_faults example_config
      strict_client, OF h1 h2] h1 h2 first
  show ?thesis by simp
qed

text \<open>
  The store holds every identifier of the file, the identifier query fails, and the loader
  submits all three rows again.
\<close>

theorem second_run_counterexample:
  "set (map exerciseId (records_of (Inr example_file))) \<subseteq> set (stored_ids populated_world) \<and>
   map_option (attempted \<circ> calls \<circ> snd)
     (loader example_config strict_client only_probe_served (Inr example_file) populated_world) =
     Some [(example_rows, ErrorResult ''unavailable'')]"
  by code_simp

text \<open>
  Claim C6. \<^verbatim>\<open>checkExistingExercises\<close> issues one select of the identifiers, with no
  limit, and never throws; when the query fails (error result or thrown exception) it
  returns the empty list. In a run whose probe is served and whose identifier query
  fails, \<^verbatim>\<open>main\<close> goes on and ends with status zero, and the batches it submits hold
  every transformed row: each is taken as new.
\<close>

theorem existing_query_failure_not_fatal:
  "(\<exists>ids w'. checkExistingExercises fs w = (ids, w') \<and>
       calls w' = calls w @ [(SelectIdsCall, fs (length (calls w)))] \<and>
       (\<not> performed (fs (length (calls w))) \<longrightarrow> ids = [])) \<and>
   (performed (fs (length (calls v))) \<and> \<not> performed (fs (Suc (length (calls v)))) \<longrightarrow>
      (\<exists>v' new. main fs (Inr jsonExercises) v = Some (0, v') \<and>
         calls v' = calls v @ [(SelectCountCall, fs (length (calls v))),
                               (SelectIdsCall, fs (Suc (length (calls v))))] @ new \<and>
         concat (map fst (attempted new)) = map mapExerciseToDatabase jsonExercises))"
proof (intro conjI impI)
  from checkExistingExercises_spec[of fs w]
  show "\<exists>ids w'. checkExistingExercises fs w = (ids, w') \<and>
       calls w' = calls w @ [(SelectIdsCall, fs (length (calls w)))] \<and>
       (\<not> performed (fs (length (calls w))) \<longrightarrow> ids = [])"
    by auto
next
  assume a: "performed (fs (length (calls v))) \<and> \<not> performed (fs (Suc (length (calls v))))"
  then have p: "performed (fs (length (calls v)))"
    and e: "[] = (if fs (Suc (length (calls v))) = NoFault then stored_ids v else [])"
    by auto
  from main_body_readable[of fs v "[]" jsonExercises, OF p e]
  obtain v' new where "main_body fs (Inr jsonExercises) v = Some (Returned (), v')"
    "calls v' = calls v @ [(SelectCountCall, fs (length (calls v))),
                           (SelectIdsCall, fs (Suc (length (calls v))))] @ new"
    "concat (map fst (attempted new)) = newExercisesOf [] (map mapExerciseToDatabase jsonExercises)"
    by blast
  then show "\<exists>v' new. main fs (Inr jsonExercises) v = Some (0, v') \<and>
         calls v' = calls v @ [(SelectCountCall, fs (length (calls v))),
                               (SelectIdsCall, fs (Suc (length (calls v))))] @ new \<and>
         concat (map fst (attempted new)) = map mapExerciseToDatabase jsonExercises"
    by (simp add: main_def none_known_all_new)
qed

theorem existing_query_failure_not_fatal_witness:
  "\<not> performed (ids_query_throws (length (calls probed_world))) \<and>
   (\<exists>w'. checkExistingExercises ids_query_throws probed_world = ([], w') \<and>
       calls w' = calls probed_world @ [(SelectIdsCall, Throw ''fetch failed'')]) \<and>
   performed (ids_query_throws (length (calls populated_world))) \<and>
   \<not> performed (ids_query_throws (Suc (length (calls populated_world)))) \<and>
   (\<exists>v' new. main ids_query_throws (Inr example_file) populated_world = Some (0, v') \<and>
      calls v' = [(SelectCountCall, NoFault), (SelectIdsCall, Throw ''fetch failed'')] @ new \<and>
      concat (map fst (attempted new)) = example_rows)"
proof -
  have h1: "\<not> performed (ids_query_throws (length (calls probed_world)))"
    by (simp add: ids_query_throws_def probed_world_def)
  have h2: "performed (ids_query_throws (length (calls populated_world)))"
    by (simp add: ids_query_throws_def populated_world_def)
  have h3: "\<not> performed (ids_query_throws (Suc (length (calls populated_world))))"
    by (simp add: ids_query_throws_def populated_world_def)
  have f1: "ids_query_throws (length (calls probed_world)) = Throw ''fetch failed''"
    by (simp add: ids_query_throws_def probed_world_def)
  have f2: "ids_query_throws (length (calls populated_world)) = NoFault"
    "ids_query_throws (Suc (length (calls populated_world))) = Throw ''fetch failed''"
    "calls populated_world = []"
    by (simp_all add: ids_query_throws_def populated_world_def)
  from existing_query_failure_not_fatal[of ids_query_throws probed_world populated_world example_file]
    h1 h2 h3
  show ?thesis unfolding f1 f2 example_rows_def by (auto simp: ids_query_throws_def)
qed

section \<open>Exit status\<close>

lemma console_console_log [simp]: "console (console_log m w) = console w @ [(Stdout, m)]"
  by (simp add: console_log_def)

lemma console_console_error [simp]: "console (console_error m w) = console w @ [(Stderr, m)]"
  by (simp add: console_error_def)

lemma print_summary_reports: "reports_counts (print_summary i e w) i e"
  by (simp add: reports_counts_def print_summary_def Let_def)

lemma insert_new_report:
  "\<exists>w' new. insert_new fs existing json w = Some (Returned (), w') \<and>
      calls w' = calls w @ new \<and>
      (if newExercisesOf existing (map mapExerciseToDatabase json) = []
       then new = [] \<and> last (console w') = (Stdout, AllAlreadyPresent)
       else reports_counts w' (rows_in (succeeded (attempted new)))
              (rows_in (failed (attempted new))))"
proof (cases "newExercisesOf existing (map mapExerciseToDatabase json) = []")
  case True
  then show ?thesis by (simp add: insert_new_def Let_def)
next
  case False
  let ?new = "newExercisesOf existing (map mapExerciseToDatabase json)"
  let ?w2 = "console_log (Skipped (length (map mapExerciseToDatabase json) - length ?new))
              (console_log (NewToInsert (length ?new)) w)"
  have "0 < batchSize_of None" by (simp add: batchSize_of_def)
  from insertExercisesInBatches_spec[OF this, of fs ?new ?w2]
  obtain insertedCount errorCount w3 new where
    run: "insertExercisesInBatches fs ?new None ?w2 = Some (insertedCount, errorCount, w3)"
    and c: "calls w3 = calls ?w2 @ new"
    and i: "insertedCount = rows_in (succeeded (attempted new))"
    and e: "errorCount = rows_in (failed (attempted new))"
    by blast
  have "reports_counts (print_summary insertedCount errorCount w3) insertedCount errorCount"
    by (rule print_summary_reports)
  with False run c i e show ?thesis by (simp add: insert_new_def Let_def)
qed

lemma main_body_probe_throw_console:
  assumes "fs (length (calls w)) = Throw m"
  shows "\<exists>w'. main_body fs file w = Some (Raised m, w') \<and>
           console w' = console w @ [(Stdout, PopulationStart), (Stdout, TestingConnection)]"
  using assms by (simp add: main_body_def select_count_def request_def Let_def)

lemma main_body_probe_error_console:
  assumes "fs (length (calls w)) = ErrorResult m"
  shows "\<exists>w'. main_body fs file w = Some (Returned (), w') \<and>
           console w' = console w @ [(Stdout, PopulationStart), (Stdout, TestingConnection),
                                     (Stderr, CannotConnect m)]"
  using assms by (simp add: main_body_def select_count_def request_def Let_def)

lemma main_body_unreadable_console:
  assumes "performed (fs (length (calls w)))"
  shows "\<exists>w' pre. main_body fs (Inl error) w = Some (Raised error, w') \<and>
           console w' = pre @ [(Stderr, ReadFailed error)]"
proof -
  from main_body_served[of fs w _ "Inl error", OF assms refl] show ?thesis
    by (auto simp: loadExercisesFromJSON_def)
qed

lemma main_body_readable_report:
  assumes "performed (fs (length (calls w)))"
    and "existing = (if fs (Suc (length (calls w))) = NoFault then stored_ids w else [])"
  shows "\<exists>w' new. main_body fs (Inr json) w = Some (Returned (), w') \<and>
           calls w' = calls w @ [(SelectCountCall, fs (length (calls w))),
                                 (SelectIdsCall, fs (Suc (length (calls w))))] @ new \<and>
           (if newExercisesOf existing (map mapExerciseToDatabase json) = []
            then new = [] \<and> last (console w') = (Stdout, AllAlreadyPresent)
            else reports_counts w' (rows_in (succeeded (attempted new)))
                   (rows_in (failed (attempted new))))"
proof -
  from main_body_served[of fs w existing "Inr json", OF assms] obtain w2 where
    c2: "calls w2 = calls w @ [(SelectCountCall, fs (length (calls w))),
                                  (SelectIdsCall, fs (Suc (length (calls w))))]"
    and mb: "main_body fs (Inr json) w =
       insert_new fs existing json
         (console_log Converting (console_log (ReadExercises (length json))
            (console_log (FoundExisting (length existing)) w2)))"
    by (auto simp: loadExercisesFromJSON_def)
  from insert_new_report[of fs existing json
      "console_log Converting (console_log (ReadExercises (length json))
            (console_log (FoundExisting (length existing)) w2))"]
  show ?thesis unfolding mb using c2 by simp
qed

lemma activate_one_returns:
  assumes nt: "\<forall>n m. fs n \<noteq> Throw m"
  shows "\<exists>w'. activate_one fs exerciseName w = (Returned (), w')"
proof -
  from nt have a: "\<And>m. fs (length (calls w)) \<noteq> Throw m"
    and b: "\<And>m. fs (Suc (length (calls w))) \<noteq> Throw m" by blast+
  show ?thesis
    using a b
    by (cases "fs (length (calls w))"; cases "fs (Suc (length (calls w)))")
       (auto simp: activate_one_def search_inactive_def activate_row_def request_def Let_def
             split: list.splits)
qed

lemma activate_names_returns:
  assumes nt: "\<forall>n m. fs n \<noteq> Throw m"
  shows "\<exists>w'. activate_names fs names w = (Returned (), w')"
proof (induction names arbitrary: w)
  case Nil
  show ?case by simp
next
  case (Cons exerciseName rest)
  from activate_one_returns[OF nt, of exerciseName w] obtain w1 where
    "activate_one fs exerciseName w = (Returned (), w1)" by blast
  with Cons[of w1] show ?case by simp
qed

lemma activate_body_returns:
  assumes nt: "\<forall>n m. fs n \<noteq> Throw m"
  shows "\<exists>w1. activate_body fs w = (Returned (), w1)"
proof -
  from activate_names_returns[OF nt, of BASIC_EXERCISES "console_log ActivatingStart w"]
  obtain wa where n: "activate_names fs BASIC_EXERCISES (console_log ActivatingStart w) =
      (Returned (), wa)" by blast
  from nt have "\<And>m. fs (length (calls wa)) \<noteq> Throw m" by blast
  then show ?thesis
    by (cases "fs (length (calls wa))")
       (auto simp: activate_body_def n count_active_def request_def Let_def)
qed

lemma activate_body_report:
  assumes "activate_body fs w = (Returned (), w1)"
  shows "\<exists>pre f cpre. calls w1 = pre @ [(CountActiveCall, f)] \<and>
           console w1 = cpre @
             [(Stdout, Done (if f = NoFault
                             then length (filter (\<lambda>r. is_active (snd r)) (rows w1)) else 0)),
              (Stdout, ReadyToTest)]"
proof -
  obtain r wa where n: "activate_names fs BASIC_EXERCISES (console_log ActivatingStart w) = (r, wa)"
    by (cases "activate_names fs BASIC_EXERCISES (console_log ActivatingStart w)") auto
  show ?thesis
  proof (cases r)
    case (Raised error)
    with assms n show ?thesis by (simp add: activate_body_def)
  next
    case (Returned u)
    let ?f = "fs (length (calls wa))"
    from assms n Returned show ?thesis
      by (cases ?f)
         (auto simp: activate_body_def count_active_def request_def Let_def
               intro!: exI[of _ "calls wa"] exI[of _ ?f])
  qed
qed

text \<open>
  Claim C2, amended. Both scripts end with status one when the base URL or the access key
  is unset or empty, and when the module-level call of \<^verbatim>\<open>createClient\<close> throws, which
  nothing catches. With the configuration present and the client created, the loader ends
  with status one, after the critical-error line, when the connectivity probe is rejected,
  and when the probe is answered without an error and the input file cannot be read or
  parsed. It ends with status zero when the probe is answered with an error: \<^verbatim>\<open>main\<close>
  returns early and the console holds the error line and no summary. It ends with status
  zero when the probe is answered without an error and the file is read: then the last
  line says that every exercise is already present, when no row is new, and otherwise
  standard output holds the summary with the inserted count and the failed count, which
  are the rows of the served and of the failed batches. The activator, in a run in which
  no request is rejected, reaches the end of its \<^verbatim>\<open>try\<close> block; and whenever it does, it
  ends with status zero and its last two lines on standard output are the count line and
  the closing line, where the count is the number of active rows when the count query is
  served with data, and zero when that query answers with an error or without data.
\<close>

theorem exit_status:
  "(config_missing cfg \<longrightarrow>
      loader cfg createClient fs file w =
        Some (1, console_error MissingConfigHint (console_error MissingConfig w)) \<and>
      activator cfg createClient fs w = (1, console_error MissingConfig w)) \<and>
   (\<not> config_missing cfg \<and>
    createClient (env_value (VITE_SUPABASE_URL cfg)) (env_value (SUPABASE_SERVICE_ROLE_KEY cfg)) =
      Raised e \<longrightarrow>
      loader cfg createClient fs file w = Some (1, w) \<and>
      activator cfg createClient fs w = (1, w)) \<and>
   (\<not> config_missing cfg \<and>
    createClient (env_value (VITE_SUPABASE_URL cfg)) (env_value (SUPABASE_SERVICE_ROLE_KEY cfg)) =
      Returned () \<longrightarrow>
      (fs (length (calls w)) = Throw m \<longrightarrow>
         (\<exists>w'. loader cfg createClient fs file w = Some (1, w') \<and>
            console w' = console w @ [(Stdout, PopulationStart), (Stdout, TestingConnection),
                                      (Stderr, CriticalError m)])) \<and>
      (fs (length (calls w)) = ErrorResult m \<longrightarrow>
         (\<exists>w'. loader cfg createClient fs file w = Some (0, w') \<and>
            console w' = console w @ [(Stdout, PopulationStart), (Stdout, TestingConnection),
                                      (Stderr, CannotConnect m)])) \<and>
      (performed (fs (length (calls w))) \<and> file = Inl error \<longrightarrow>
         (\<exists>w' pre. loader cfg createClient fs file w = Some (1, w') \<and>
            console w' = pre @ [(Stderr, ReadFailed error), (Stderr, CriticalError error)])) \<and>
      (performed (fs (length (calls w))) \<and> file = Inr json \<longrightarrow>
         (\<exists>w' new. loader cfg createClient fs file w = Some (0, w') \<and>
            calls w' = calls w @ [(SelectCountCall, fs (length (calls w))),
                                  (SelectIdsCall, fs (Suc (length (calls w))))] @ new \<and>
            (if newExercisesOf (if fs (Suc (length (calls w))) = NoFault then stored_ids w else [])
                  (map mapExerciseToDatabase json) = []
             then new = [] \<and> last (console w') = (Stdout, AllAlreadyPresent)
             else reports_counts w' (rows_in (succeeded (attempted new)))
                    (rows_in (failed (attempted new)))))) \<and>
      ((\<forall>n x. fs n \<noteq> Throw x) \<longrightarrow> (\<exists>w'. activate_body fs w = (Returned (), w'))) \<and>
      (activate_body fs w = (Returned (), w1) \<longrightarrow>
         activator cfg createClient fs w = (0, w1) \<and>
         (\<exists>pre f cpre. calls w1 = pre @ [(CountActiveCall, f)] \<and>
            console w1 = cpre @
              [(Stdout, Done (if f = NoFault
                              then length (filter (\<lambda>r. is_active (snd r)) (rows w1)) else 0)),
               (Stdout, ReadyToTest)])))"
proof (intro conjI impI)
  assume "config_missing cfg"
  then show "loader cfg createClient fs file w =
        Some (1, console_error MissingConfigHint (console_error MissingConfig w))"
    by (simp add: loader_def config_missing_def)
next
  assume "config_missing cfg"
  then show "activator cfg createClient fs w = (1, console_error MissingConfig w)"
    by (simp add: activator_def config_missing_def)
next
  assume "\<not> config_missing cfg \<and>
    createClient (env_value (VITE_SUPABASE_URL cfg)) (env_value (SUPABASE_SERVICE_ROLE_KEY cfg)) =
      Raised e"
  then show "loader cfg createClient fs file w = Some (1, w)"
    by (simp add: loader_def config_missing_def)
next
  assume "\<not> config_missing cfg \<and>
    createClient (env_value (VITE_SUPABASE_URL cfg)) (env_value (SUPABASE_SERVICE_ROLE_KEY cfg)) =
      Raised e"
  then show "activator cfg createClient fs w = (1, w)"
    by (simp add: activator_def config_missing_def)
next
  assume c: "\<not> config_missing cfg \<and>
    createClient (env_value (VITE_SUPABASE_URL cfg)) (env_value (SUPABASE_SERVICE_ROLE_KEY cfg)) =
      Returned ()"
    and f: "fs (length (calls w)) = Throw m"
  from c have l: "loader cfg createClient fs file w = main fs file w"
    by (simp add: loader_def config_missing_def)
  from main_body_probe_throw_console[of fs w m "file", OF f]
  show "\<exists>w'. loader cfg createClient fs file w = Some (1, w') \<and>
            console w' = console w @ [(Stdout, PopulationStart), (Stdout, TestingConnection),
                                      (Stderr, CriticalError m)]"
    by (auto simp: l main_def)
next
  assume c: "\<not> config_missing cfg \<and>
    createClient (env_value (VITE_SUPABASE_URL cfg)) (env_value (SUPABASE_SERVICE_ROLE_KEY cfg)) =
      Returned ()"
    and f: "fs (length (calls w)) = ErrorResult m"
  from c have l: "loader cfg createClient fs file w = main fs file w"
    by (simp add: loader_def config_missing_def)
  from main_body_probe_error_console[of fs w m "file", OF f]
  show "\<exists>w'. loader cfg createClient fs file w = Some (0, w') \<and>
            console w' = console w @ [(Stdout, PopulationStart), (Stdout, TestingConnection),
                                      (Stderr, CannotConnect m)]"
    by (auto simp: l main_def)
next
  assume c: "\<not> config_missing cfg \<and>
    createClient (env_value (VITE_SUPABASE_URL cfg)) (env_value (SUPABASE_SERVICE_ROLE_KEY cfg)) =
      Returned ()"
    and f: "performed (fs (length (calls w))) \<and> file = Inl error"
  from c have l: "\<And>g. loader cfg createClient fs g w = main fs g w"
    by (simp add: loader_def config_missing_def)
  from f have p: "performed (fs (length (calls w)))" and fl: "file = Inl error" by simp_all
  from main_body_unreadable_console[of fs w error, OF p]
  show "\<exists>w' pre. loader cfg createClient fs file w = Some (1, w') \<and>
            console w' = pre @ [(Stderr, ReadFailed error), (Stderr, CriticalError error)]"
    by (auto simp: l fl main_def)
next
  assume c: "\<not> config_missing cfg \<and>
    createClient (env_value (VITE_SUPABASE_URL cfg)) (env_value (SUPABASE_SERVICE_ROLE_KEY cfg)) =
      Returned ()"
    and f: "performed (fs (length (calls w))) \<and> file = Inr json"
  from c have l: "\<And>g. loader cfg createClient fs g w = main fs g w"
    by (simp add: loader_def config_missing_def)
  from f have p: "performed (fs (length (calls w)))" and fl: "file = Inr json" by simp_all
  from main_body_readable_report[of fs w _ json, OF p refl]
  obtain w' new where
    mb: "main_body fs (Inr json) w = Some (Returned (), w')"
    and rest: "calls w' = calls w @ [(SelectCountCall, fs (length (calls w))),
                                  (SelectIdsCall, fs (Suc (length (calls w))))] @ new \<and>
            (if newExercisesOf (if fs (Suc (length (calls w))) = NoFault then stored_ids w else [])
                  (map mapExerciseToDatabase json) = []
             then new = [] \<and> last (console w') = (Stdout, AllAlreadyPresent)
             else reports_counts w' (rows_in (succeeded (attempted new)))
                    (rows_in (failed (attempted new))))"
    by blast
  from mb have "loader cfg createClient fs file w = Some (0, w')"
    by (simp add: l fl main_def)
  with rest
  show "\<exists>w' new. loader cfg createClient fs file w = Some (0, w') \<and>
            calls w' = calls w @ [(SelectCountCall, fs (length (calls w))),
                                  (SelectIdsCall, fs (Suc (length (calls w))))] @ new \<and>
            (if newExercisesOf (if fs (Suc (length (calls w))) = NoFault then stored_ids w else [])
                  (map mapExerciseToDatabase json) = []
             then new = [] \<and> last (console w') = (Stdout, AllAlreadyPresent)
             else reports_counts w' (rows_in (succeeded (attempted new)))
                    (rows_in (failed (attempted new))))"
    by blast
next
  assume "\<forall>n x. fs n \<noteq> Throw x"
  then show "\<exists>w'. activate_body fs w = (Returned (), w')"
    by (rule activate_body_returns)
next
  assume c: "\<not> config_missing cfg \<and>
    createClient (env_value (VITE_SUPABASE_URL cfg)) (env_value (SUPABASE_SERVICE_ROLE_KEY cfg)) =
      Returned ()"
    and ab: "activate_body fs w = (Returned (), w1)"
  then show "activator cfg createClient fs w = (0, w1)"
    by (simp add: activator_def activateBasicExercises_def config_missing_def)
next
  assume ab: "activate_body fs w = (Returned (), w1)"
  then show "\<exists>pre f cpre. calls w1 = pre @ [(CountActiveCall, f)] \<and>
            console w1 = cpre @
              [(Stdout, Done (if f = NoFault
                              then length (filter (\<lambda>r. is_active (snd r)) (rows w1)) else 0)),
               (Stdout, ReadyToTest)]"
    by (rule activate_body_report)
qed

theorem exit_status_witness:
  "config_missing unset_config \<and>
   loader unset_config strict_client no_faults (Inr example_file) gym_world =
     Some (1, console_error MissingConfigHint (console_error MissingConfig gym_world)) \<and>
   activator unset_config strict_client no_faults gym_world =
     (1, console_error MissingConfig gym_world) \<and>
   \<not> config_missing malformed_config \<and>
   strict_client (env_value (VITE_SUPABASE_URL malformed_config))
     (env_value (SUPABASE_SERVICE_ROLE_KEY malformed_config)) = Raised ''Invalid supabaseUrl'' \<and>
   loader malformed_config strict_client no_faults (Inr example_file) gym_world =
     Some (1, gym_world) \<and>
   activator malformed_config strict_client no_faults gym_world = (1, gym_world) \<and>
   \<not> config_missing example_config \<and>
   strict_client (env_value (VITE_SUPABASE_URL example_config))
     (env_value (SUPABASE_SERVICE_ROLE_KEY example_config)) = Returned () \<and>
   (\<exists>w'. loader example_config strict_client all_throw (Inr example_file) gym_world =
           Some (1, w') \<and>
         console w' = [(Stdout, PopulationStart), (Stdout, TestingConnection),
                       (Stderr, CriticalError ''fetch failed'')]) \<and>
   (\<exists>w'. loader example_config strict_client all_fail (Inr example_file) gym_world =
           Some (0, w') \<and>
         console w' = [(Stdout, PopulationStart), (Stdout, TestingConnection),
                       (Stderr, CannotConnect ''down'')]) \<and>
   (\<exists>w' pre. loader example_config strict_client no_faults missing_file gym_world =
           Some (1, w') \<and>
         console w' = pre @ [(Stderr, ReadFailed ''ENOENT''), (Stderr, CriticalError ''ENOENT'')]) \<and>
   (\<exists>w' new. loader example_config strict_client no_faults (Inr example_file) gym_world =
           Some (0, w') \<and>
         calls w' = [(SelectCountCall, NoFault), (SelectIdsCall, NoFault)] @ new \<and>
         reports_counts w' 1 0) \<and>
   (\<exists>w1 cpre. activate_body no_faults gym_world = (Returned (), w1) \<and>
         activator example_config strict_client no_faults gym_world = (0, w1) \<and>
         console w1 = cpre @ [(Stdout, Done 2), (Stdout, ReadyToTest)])"
proof -
  have missing: "config_missing unset_config" by code_simp
  have rejected: "\<not> config_missing malformed_config \<and>
      strict_client (env_value (VITE_SUPABASE_URL malformed_config))
        (env_value (SUPABASE_SERVICE_ROLE_KEY malformed_config)) = Raised ''Invalid supabaseUrl''"
    by code_simp
  have created: "\<not> config_missing example_config \<and>
      strict_client (env_value (VITE_SUPABASE_URL example_config))
        (env_value (SUPABASE_SERVICE_ROLE_KEY example_config)) = Returned ()"
    by code_simp
  have c0: "calls gym_world = []" "console gym_world = []" by (simp_all add: gym_world_def)
  note a = exit_status[of unset_config strict_client no_faults "Inr example_file" gym_world,
      THEN conjunct1, THEN mp, OF missing]
  note b = exit_status[of malformed_config strict_client no_faults "Inr example_file" gym_world
      "''Invalid supabaseUrl''", THEN conjunct2, THEN conjunct1, THEN mp, OF rejected]
  have t: "all_throw (length (calls gym_world)) = Throw ''fetch failed''"
    by (simp add: all_throw_def)
  note c = exit_status[of example_config strict_client all_throw "Inr example_file" gym_world _
      "''fetch failed''", THEN conjunct2, THEN conjunct2, THEN mp, OF created,
      THEN conjunct1, THEN mp, OF t]
  have f: "all_fail (length (calls gym_world)) = ErrorResult ''down''"
    by (simp add: all_fail_def)
  note d = exit_status[of example_config strict_client all_fail "Inr example_file" gym_world _
      "''down''", THEN conjunct2, THEN conjunct2, THEN mp, OF created,
      THEN conjunct2, THEN conjunct1, THEN mp, OF f]
  have u: "performed (no_faults (length (calls gym_world))) \<and> missing_file = Inl ''ENOENT''"
    by (simp add: no_faults_def missing_file_def)
  note e = exit_status[of example_config strict_client no_faults missing_file gym_world _ _
      "''ENOENT''", THEN conjunct2, THEN conjunct2, THEN mp, OF created,
      THEN conjunct2, THEN conjunct2, THEN conjunct1, THEN mp, OF u]
  have r: "performed (no_faults (length (calls gym_world))) \<and> Inr example_file = Inr example_file"
    by (simp add: no_faults_def)
  note g = exit_status[of example_config strict_client no_faults "Inr example_file" gym_world _ _ _
      example_file, THEN conjunct2, THEN conjunct2, THEN mp, OF created,
      THEN conjunct2, THEN conjunct2, THEN conjunct2, THEN conjunct1, THEN mp, OF r]
  have some_new: "newExercisesOf (stored_ids gym_world) (map mapExerciseToDatabase example_file) \<noteq> []"
    by code_simp
  have batches: "map_option (map (\<lambda>b. (length (fst b), snd b)) \<circ> attempted \<circ> calls \<circ> snd)
      (loader example_config strict_client no_faults (Inr example_file) gym_world) =
      Some [(1, NoFault)]"
    by code_simp
  from g some_new obtain w' new where
    run: "loader example_config strict_client no_faults (Inr example_file) gym_world = Some (0, w')"
    and cs: "calls w' = [(SelectCountCall, NoFault), (SelectIdsCall, NoFault)] @ new"
    and rep: "reports_counts w' (rows_in (succeeded (attempted new)))
                (rows_in (failed (attempted new)))"
    by (auto simp: c0 no_faults_def)
  from batches run cs have "map (\<lambda>b. (length (fst b), snd b)) (attempted new) = [(1, NoFault)]"
    by simp
  then have "rows_in (succeeded (attempted new)) = 1" "rows_in (failed (attempted new)) = 0"
    by (auto simp: rows_in_def succeeded_def failed_def)
  with rep have rep': "reports_counts w' 1 0" by simp
  have nt: "\<forall>n x. no_faults n \<noteq> Throw x" by (simp add: no_faults_def)
  from exit_status[of example_config strict_client no_faults "Inr example_file" gym_world,
      THEN conjunct2, THEN conjunct2, THEN mp, OF created,
      THEN conjunct2, THEN conjunct2, THEN conjunct2, THEN conjunct2, THEN conjunct1,
      THEN mp, OF nt]
  obtain w1 where ab: "activate_body no_faults gym_world = (Returned (), w1)" by blast
  note h = exit_status[of example_config strict_client no_faults "Inr example_file" gym_world
      _ _ _ _ w1, THEN conjunct2, THEN conjunct2, THEN mp, OF created,
      THEN conjunct2, THEN conjunct2, THEN conjunct2, THEN conjunct2, THEN conjunct2,
      THEN mp, OF ab]
  have lastcall: "last (calls (snd (activate_body no_faults gym_world))) = (CountActiveCall, NoFault)"
    by code_simp
  have active: "length (filter (\<lambda>r. is_active (snd r)) (rows (snd (activate_body no_faults gym_world)))) = 2"
    by code_simp
  from h obtain pre fl cpre where
    act: "activator example_config strict_client no_faults gym_world = (0, w1)"
    and cl: "calls w1 = pre @ [(CountActiveCall, fl)]"
    and co: "console w1 = cpre @
              [(Stdout, Done (if fl = NoFault
                              then length (filter (\<lambda>r. is_active (snd r)) (rows w1)) else 0)),
               (Stdout, ReadyToTest)]"
    by blast
  from lastcall ab cl have "fl = NoFault" by simp
  with co active ab have co': "console w1 = cpre @ [(Stdout, Done 2), (Stdout, ReadyToTest)]"
    by simp
  from run cs rep' have g': "\<exists>w' new. loader example_config strict_client no_faults (Inr example_file) gym_world =
           Some (0, w') \<and>
         calls w' = [(SelectCountCall, NoFault), (SelectIdsCall, NoFault)] @ new \<and>
         reports_counts w' 1 0" by blast
  from ab act co' have h': "\<exists>w1 cpre. activate_body no_faults gym_world = (Returned (), w1) \<and>
         activator example_config strict_client no_faults gym_world = (0, w1) \<and>
         console w1 = cpre @ [(Stdout, Done 2), (Stdout, ReadyToTest)]" by blast
  from missing a rejected b created c d e g' h' show ?thesis by (simp add: c0)
qed

text \<open>
  The loader with the configuration present, the client created and a probe that answers
  with an error: the run ends with status zero and the console holds no summary.
\<close>

theorem exit_status_counterexample:
  "\<not> config_missing example_config \<and>
   strict_client (env_value (VITE_SUPABASE_URL example_config))
     (env_value (SUPABASE_SERVICE_ROLE_KEY example_config)) = Returned () \<and>
   loader example_config strict_client all_fail (Inr example_file) empty_world =
     Some (0, \<lparr> rows = [], calls = [(SelectCountCall, ErrorResult ''down'')],
               console = [(Stdout, PopulationStart), (Stdout, TestingConnection),
                          (Stderr, CannotConnect ''down'')] \<rparr>) \<and>
   \<not> summary_printed
       \<lparr> rows = [], calls = [(SelectCountCall, ErrorResult ''down'')],
         console = [(Stdout, PopulationStart), (Stdout, TestingConnection),
                    (Stderr, CannotConnect ''down'')] \<rparr>"
  by code_simp

text \<open>
  The activator's \<^verbatim>\<open>catch\<close> logs the error and does not call \<^verbatim>\<open>process.exit\<close>: a run
  in which the first search throws ends with status zero.
\<close>

lemma activator_caught_error_exits_zero:
  "activator example_config strict_client all_throw gym_world =
     (0, gym_world\<lparr> calls := [(SearchCall ''push up'', Throw ''fetch failed'')],
                   console := [(Stdout, ActivatingStart), (Stdout, Searching ''push up''),
                               (Stderr, CriticalError ''fetch failed'')] \<rparr>)"
  by code_simp

section \<open>Properties of the activator loop\<close>

lemma search_inactive_calls:
  "search_inactive fs exerciseName w = (r, w1) \<Longrightarrow>
   calls w1 = calls w @ [(SearchCall exerciseName, fs (length (calls w)))] \<and>
   rows w1 = rows w \<and> console w1 = console w"
  by (auto simp: search_inactive_def request_def Let_def)

lemma updates_append: "updates (xs @ ys) = updates xs @ updates ys"
  by (induction xs rule: updates.induct) simp_all

text \<open>
  Claim C5. When the search for a name answers with zero matches, the pass for that name
  issues no update request, leaves the rows, and so the inactive rows and their number,
  as they were, and the loop goes on with the remaining names.
\<close>

theorem no_match_no_update:
  assumes "search_inactive fs exerciseName (console_log (Searching exerciseName) w) =
             (Response (Some []) None, w1)"
  shows "\<exists>w'. activate_one fs exerciseName w = (Returned (), w') \<and>
           updates (calls w') = updates (calls w) \<and>
           rows w' = rows w \<and>
           inactive_rows w' = inactive_rows w \<and>
           length (inactive_rows w') = length (inactive_rows w) \<and>
           activate_names fs (exerciseName # rest) w = activate_names fs rest w'"
proof -
  from search_inactive_calls[OF assms]
  have c: "calls w1 = calls w @ [(SearchCall exerciseName, fs (length (calls w)))]"
    and r: "rows w1 = rows w"
    by (simp_all add: console_log_def)
  let ?w' = "console_log (NoneFound exerciseName) w1"
  from assms have one: "activate_one fs exerciseName w = (Returned (), ?w')"
    by (simp add: activate_one_def)
  moreover from c have "updates (calls ?w') = updates (calls w)"
    by (simp add: console_log_def updates_append)
  moreover from r have "rows ?w' = rows w" by (simp add: console_log_def)
  moreover from r have "inactive_rows ?w' = inactive_rows w"
    by (simp add: console_log_def inactive_rows_def)
  moreover from one have "activate_names fs (exerciseName # rest) w = activate_names fs rest ?w'"
    by simp
  ultimately show ?thesis by simp
qed

theorem no_match_no_update_witness:
  "search_inactive no_faults ''push up'' (console_log (Searching ''push up'') gym_world) =
     (Response (Some []) None,
      (console_log (Searching ''push up'') gym_world)\<lparr>calls := [(SearchCall ''push up'', NoFault)]\<rparr>) \<and>
   (\<exists>w'. activate_one no_faults ''push up'' gym_world = (Returned (), w') \<and>
          updates (calls w') = updates (calls gym_world) \<and>
          rows w' = rows gym_world \<and>
          inactive_rows w' = inactive_rows gym_world \<and>
          length (inactive_rows w') = length (inactive_rows gym_world) \<and>
          activate_names no_faults [''push up'', ''squat''] gym_world =
            activate_names no_faults [''squat''] w')"
proof -
  have h: "search_inactive no_faults ''push up'' (console_log (Searching ''push up'') gym_world) =
     (Response (Some []) None,
      (console_log (Searching ''push up'') gym_world)\<lparr>calls := [(SearchCall ''push up'', NoFault)]\<rparr>)"
    by code_simp
  from no_match_no_update[OF h, of "[''squat'']"] h show ?thesis by simp
qed



end
